theory Spec2Isabelle
  imports Complex_Main "HOL-Library.Sublist" "HOL-Library.Char_ord"
    "HOL-Library.List_Lexorder" "HOL-Library.Product_Lexorder"
begin

section \<open>Long-label wrapping (\<open>wrap_text\<close> of GenerateCharts.py)\<close>

text \<open>
  A Python \<open>str\<close> is a sequence of code points. It is modelled as a \<open>string\<close> in which
  one \<open>char\<close> stands for one code point below 256, which covers the Latin-1 text of the
  dataset; \<open>length\<close> is then Python's \<open>len\<close>.

  \<open>isspace\<close> is \<open>str.isspace\<close> on those code points: TAB, LF, VT, FF, CR, the four
  separators 28 to 31, the blank, NEL (133) and the no-break space (160).
\<close>

definition isspace :: "char \<Rightarrow> bool" where
  "isspace c =
     (let n = (of_char c :: nat)
      in (9 \<le> n \<and> n \<le> 13) \<or> (28 \<le> n \<and> n \<le> 32) \<or> n = 133 \<or> n = 160)"

text \<open>
  \<open>text.split()\<close> without argument: runs of whitespace separate the words, and no empty
  word is produced. \<open>split_run w s\<close> scans \<open>s\<close> with the word \<open>w\<close> read so far.
\<close>

fun split_run :: "string \<Rightarrow> string \<Rightarrow> string list" where
  "split_run w [] = (if w = [] then [] else [w])"
| "split_run w (c # cs) =
     (if isspace c then (if w = [] then split_run [] cs else w # split_run [] cs)
      else split_run (w @ [c]) cs)"

definition split :: "string \<Rightarrow> string list" where
  "split text = split_run [] text"

text \<open>\<open>sep.join(xs)\<close>.\<close>

fun join :: "string \<Rightarrow> string list \<Rightarrow> string" where
  "join sep [] = []"
| "join sep [x] = x"
| "join sep (x # y # ys) = x @ sep @ join sep (y # ys)"

text \<open>
  The \<open>for word in words\<close> loop of \<open>wrap_text\<close>, on the three variables it updates:
  \<open>lines\<close>, \<open>current_line\<close> and \<open>current_length\<close>.
\<close>

fun wrap_loop ::
  "int \<Rightarrow> string list \<Rightarrow> string list \<Rightarrow> string list \<Rightarrow> int
     \<Rightarrow> string list \<times> string list \<times> int" where
  "wrap_loop max_length [] lines current_line current_length =
     (lines, current_line, current_length)"
| "wrap_loop max_length (word # words) lines current_line current_length =
     (if current_length + int (length word) + int (length current_line) > max_length
         \<and> current_line \<noteq> []
      then wrap_loop max_length words (lines @ [join '' '' current_line])
             [word] (int (length word))
      else wrap_loop max_length words lines (current_line @ [word])
             (current_length + int (length word)))"

definition wrap_text :: "string \<Rightarrow> int \<Rightarrow> string" where
  "wrap_text text max_length =
     (if int (length text) \<le> max_length then text
      else
        (case wrap_loop max_length (split text) [] [] 0 of
           (lines, current_line, current_length) \<Rightarrow>
             join ''<br>''
               (if current_line \<noteq> [] then lines @ [join '' '' current_line] else lines)))"

text \<open>
  Greedy packing as the specification words it: the next word opens a new line exactly
  when the current line is not empty and the current line with that word added, joined
  by single blanks, would be longer than the threshold. \<open>greedy_lines m cur ws\<close> packs
  the words \<open>ws\<close> after the words \<open>cur\<close> already on the current line.
\<close>

fun greedy_lines :: "int \<Rightarrow> string list \<Rightarrow> string list \<Rightarrow> string list list" where
  "greedy_lines m cur [] = (if cur = [] then [] else [cur])"
| "greedy_lines m cur (w # ws) =
     (if cur \<noteq> [] \<and> int (length (join '' '' (cur @ [w]))) > m
      then cur # greedy_lines m [w] ws
      else greedy_lines m (cur @ [w]) ws)"

text \<open>
  \<open>out.split('<br>')\<close>, used to read a wrapped label back: \<open>split_br acc s\<close> scans \<open>s\<close>
  from the left with the piece \<open>acc\<close> read so far and cuts at every occurrence of the
  marker.
\<close>

function split_br :: "string \<Rightarrow> string \<Rightarrow> string list" where
  "split_br acc [] = [acc]"
| "split_br acc (c # cs) =
     (if take 4 (c # cs) = ''<br>'' then acc # split_br [] (drop 3 cs)
      else split_br (acc @ [c]) cs)"
  by pat_completeness auto
termination
  by (relation "measure (\<lambda>(acc, s). length s)") auto

text \<open>The words read back from a wrapped label: cut at the marker, then at whitespace.\<close>

definition unwrap_words :: "string \<Rightarrow> string list" where
  "unwrap_words out = concat (map split (split_br [] out))"

section \<open>The table and the dataframe operations the scripts call\<close>

text \<open>
  A cell of the table as \<open>read_csv\<close> delivers it: a number (a cell of a numeric column),
  a text (a cell of a column that holds some text, where every non-empty cell is kept as
  text) or the null marker (an empty cell, NaN). Numbers are modelled as rationals.
\<close>

datatype cell = Text string | Num rat | Null

text \<open>
  One row per (company, pillar, variable) assessment, with the columns the modelled
  procedures read: company name (\<open>razon_social\<close>), \<open>Macrosector\<close>, \<open>Bloque\<close>,
  \<open>Nombre Pilar\<close>, \<open>Variable\<close>, \<open>valoracionPonderada\<close>, \<open>Ingresos operacionales\<close> and
  the founding year (\<open>ano_de_fundacion\<close>). The categorical columns hold a text or are
  empty. Column names are the fields of the record, so stripping the blanks around the
  header names (\<open>rename(columns=lambda x: x.strip())\<close>) is what makes the fields
  addressable and leaves the rows as they are.
\<close>

record row =
  razon_social :: "string option"
  macrosector :: "string option"
  bloque :: "string option"
  nombre_pilar :: "string option"
  variable :: "string option"
  valoracionPonderada :: cell
  ingresos_operacionales :: cell
  ano_de_fundacion :: cell

type_synonym frame = "row list"

datatype error = FileNotFoundError string | TypeError | ValueError

subsection \<open>Coercion\<close>

text \<open>
  \<open>pd.to_numeric(column, errors='coerce')\<close> on one cell. The parser of numeric text
  belongs to the library and is a parameter: \<open>parse s\<close> is the number that the text \<open>s\<close>
  denotes, if any. A text that denotes no number becomes the null marker.
\<close>

definition to_numeric :: "(string \<Rightarrow> rat option) \<Rightarrow> cell \<Rightarrow> cell" where
  "to_numeric parse c =
     (case c of
        Text s \<Rightarrow> (case parse s of Some x \<Rightarrow> Num x | None \<Rightarrow> Null)
      | Num x \<Rightarrow> Num x
      | Null \<Rightarrow> Null)"

text \<open>\<open>fillna(0)\<close> on one cell.\<close>

definition fillna0 :: "cell \<Rightarrow> cell" where
  "fillna0 c = (case c of Null \<Rightarrow> Num 0 | _ \<Rightarrow> c)"

subsection \<open>Reductions of one group\<close>

text \<open>
  Python's \<open>+\<close> on two cell values: numbers add, texts concatenate, a number and a text
  raise \<open>TypeError\<close>.
\<close>

fun add_cell :: "cell \<Rightarrow> cell \<Rightarrow> error + cell" where
  "add_cell (Num a) (Num b) = Inr (Num (a + b))"
| "add_cell (Text a) (Text b) = Inr (Text (a @ b))"
| "add_cell _ _ = Inl TypeError"

fun sum_cells :: "cell \<Rightarrow> cell list \<Rightarrow> error + cell" where
  "sum_cells acc [] = Inr acc"
| "sum_cells acc (c # cs) =
     (case add_cell acc c of Inl e \<Rightarrow> Inl e | Inr acc' \<Rightarrow> sum_cells acc' cs)"

text \<open>
  The \<open>sum\<close> of a group: null cells are skipped, the first remaining value starts the sum
  and the others are added to it in row order; a group without values sums to 0.
\<close>

definition agg_sum :: "cell list \<Rightarrow> error + cell" where
  "agg_sum cells =
     (case filter (\<lambda>c. c \<noteq> Null) cells of
        [] \<Rightarrow> Inr (Num 0)
      | c # cs \<Rightarrow> sum_cells c cs)"

fun is_text :: "cell \<Rightarrow> bool" where
  "is_text (Text s) = True"
| "is_text _ = False"

fun nums :: "cell list \<Rightarrow> rat list" where
  "nums [] = []"
| "nums (Num x # cs) = x # nums cs"
| "nums (_ # cs) = nums cs"

text \<open>
  The \<open>mean\<close> of a group: a text among the values raises \<open>TypeError\<close> (the mean is not
  defined on a column that holds text); otherwise null cells are skipped, and a group
  without values has the null marker as its mean.
\<close>

definition agg_mean :: "cell list \<Rightarrow> error + cell" where
  "agg_mean cells =
     (if \<exists>c\<in>set cells. is_text c then Inl TypeError
      else (case nums cells of
              [] \<Rightarrow> Inr Null
            | x # xs \<Rightarrow> Inr (Num (sum_list (x # xs) / of_nat (length (x # xs))))))"

text \<open>
  The arithmetic of a numeric column. A column of numbers is held as 64-bit integers or
  as 64-bit floating-point numbers, and the library adds, averages and subtracts in that
  representation: an integer sum wraps around, a floating-point result is rounded, and
  the sum of a group is accumulated in an order of the library's choosing. Where the
  value that comes out is compared or labelled, the model keeps the value of a number
  as a rational and takes the three operations as parameters: \<open>asum A xs\<close> is the sum
  of the values \<open>xs\<close> of a group as the library computes it, \<open>amean A xs\<close> their mean and
  \<open>asub A x y\<close> the difference of two values. Results that are not finite numbers are
  outside the model. The comparisons with zero are exact in either representation.
\<close>

record arith =
  asum :: "rat list \<Rightarrow> rat"
  amean :: "rat list \<Rightarrow> rat"
  asub :: "rat \<Rightarrow> rat \<Rightarrow> rat"

text \<open>The arithmetic without rounding and without wrap-around, used in the examples.\<close>

definition exact :: arith where
  "exact = \<lparr> asum = sum_list,
             amean = (\<lambda>xs. sum_list xs / of_nat (length xs)),
             asub = (\<lambda>x y. x - y) \<rparr>"

text \<open>
  The \<open>sum\<close> and the \<open>mean\<close> of a group in the arithmetic \<open>A\<close>. A group that holds a text is
  a group of Python objects and is summed with \<open>+\<close> as before; a mean over it raises
  \<open>TypeError\<close>.
\<close>

definition agg_sum_in :: "arith \<Rightarrow> cell list \<Rightarrow> error + cell" where
  "agg_sum_in A cells =
     (case filter (\<lambda>c. c \<noteq> Null) cells of
        [] \<Rightarrow> Inr (Num 0)
      | c # cs \<Rightarrow>
          if \<exists>c\<in>set cells. is_text c then sum_cells c cs
          else Inr (Num (asum A (nums cells))))"

definition agg_mean_in :: "arith \<Rightarrow> cell list \<Rightarrow> error + cell" where
  "agg_mean_in A cells =
     (if \<exists>c\<in>set cells. is_text c then Inl TypeError
      else (case nums cells of
              [] \<Rightarrow> Inr Null
            | x # xs \<Rightarrow> Inr (Num (amean A (x # xs)))))"

text \<open>The \<open>first\<close> of a group: its first value that is not null.\<close>

definition agg_first :: "cell list \<Rightarrow> cell" where
  "agg_first cells = (case filter (\<lambda>c. c \<noteq> Null) cells of [] \<Rightarrow> Null | c # cs \<Rightarrow> c)"

definition agg_first_text :: "string option list \<Rightarrow> string option" where
  "agg_first_text cells = (case filter (\<lambda>c. c \<noteq> None) cells of [] \<Rightarrow> None | c # cs \<Rightarrow> c)"

text \<open>
  The comparison \<open>column > 0\<close> on one cell: false on the null marker, \<open>TypeError\<close> on a
  text.
\<close>

fun gt0 :: "cell \<Rightarrow> error + bool" where
  "gt0 (Num x) = Inr (0 < x)"
| "gt0 Null = Inr False"
| "gt0 (Text s) = Inl TypeError"

subsection \<open>Grouping\<close>

text \<open>Running a computation that may raise over a list stops at the first error.\<close>

fun collect :: "('a \<Rightarrow> error + 'b) \<Rightarrow> 'a list \<Rightarrow> error + 'b list" where
  "collect f [] = Inr []"
| "collect f (x # xs) =
     (case f x of
        Inl e \<Rightarrow> Inl e
      | Inr y \<Rightarrow> (case collect f xs of Inl e \<Rightarrow> Inl e | Inr ys \<Rightarrow> Inr (y # ys)))"

text \<open>
  Boolean indexing \<open>frame[mask]\<close>: the mask is computed for the whole column first, so an
  error on any row raises; otherwise the rows whose mask is true are kept, in order.
\<close>

definition select :: "('a \<Rightarrow> error + bool) \<Rightarrow> 'a list \<Rightarrow> error + 'a list" where
  "select p xs =
     (case collect p xs of
        Inl e \<Rightarrow> Inl e
      | Inr keep \<Rightarrow> Inr (map fst (filter snd (zip xs keep))))"

text \<open>
  \<open>groupby(keys)\<close>: rows with a null key are left out, and the groups come in ascending
  order of their key (texts by code points, pairs lexicographically).
\<close>

definition group_keys :: "('r \<Rightarrow> 'k option) \<Rightarrow> 'r list \<Rightarrow> ('k::linorder) list" where
  "group_keys key rows = sort (remdups (List.map_filter key rows))"

definition group_rows :: "('r \<Rightarrow> 'k option) \<Rightarrow> 'k \<Rightarrow> 'r list \<Rightarrow> 'r list" where
  "group_rows key k rows = filter (\<lambda>r. key r = Some k) rows"

definition key2 :: "('r \<Rightarrow> 'a option) \<Rightarrow> ('r \<Rightarrow> 'b option) \<Rightarrow> 'r \<Rightarrow> ('a \<times> 'b) option" where
  "key2 f g r =
     (case f r of
        None \<Rightarrow> None
      | Some a \<Rightarrow> (case g r of None \<Rightarrow> None | Some b \<Rightarrow> Some (a, b)))"

text \<open>
  \<open>groupby(keys)[column].agg()\<close> followed by \<open>reset_index()\<close>: one (key, value) row per
  group.
\<close>

definition groupby_agg ::
  "('r \<Rightarrow> ('k::linorder) option) \<Rightarrow> ('r \<Rightarrow> cell) \<Rightarrow> (cell list \<Rightarrow> error + cell)
     \<Rightarrow> 'r list \<Rightarrow> error + ('k \<times> cell) list" where
  "groupby_agg key col agg rows =
     collect (\<lambda>k. case agg (map col (group_rows key k rows)) of
                     Inl e \<Rightarrow> Inl e
                   | Inr v \<Rightarrow> Inr (k, v))
       (group_keys key rows)"

text \<open>
  \<open>pd.unique\<close>: the values in order of first appearance; \<open>uniq seen xs\<close> scans \<open>xs\<close> with
  the set of values already seen.
\<close>

fun uniq :: "'a set \<Rightarrow> 'a list \<Rightarrow> 'a list" where
  "uniq seen [] = []"
| "uniq seen (x # xs) = (if x \<in> seen then uniq seen xs else x # uniq (insert x seen) xs)"

definition pd_unique :: "'a list \<Rightarrow> 'a list" where
  "pd_unique xs = uniq {} xs"

subsection \<open>Pivoting\<close>

text \<open>
  A pivoted matrix: the row labels, the column labels, and one list of cells per row
  label.
\<close>

record matrix =
  m_index :: "string list"
  m_columns :: "string list"
  m_values :: "cell list list"

text \<open>
  \<open>unstack\<close>: the entries, keyed by (row label, column label), are spread over the
  sorted row labels and the sorted column labels that occur among them; a position
  without an entry holds the null marker.
\<close>

definition entry :: "((string \<times> string) \<times> cell) list \<Rightarrow> string \<Rightarrow> string \<Rightarrow> cell" where
  "entry es i j = (case map_of es (i, j) of None \<Rightarrow> Null | Some v \<Rightarrow> v)"

definition unstack :: "((string \<times> string) \<times> cell) list \<Rightarrow> matrix" where
  "unstack es =
     (let idx = sort (remdups (map (\<lambda>e. fst (fst e)) es));
          cols = sort (remdups (map (\<lambda>e. snd (fst e)) es))
      in \<lparr> m_index = idx, m_columns = cols,
           m_values = map (\<lambda>i. map (\<lambda>j. entry es i j) cols) idx \<rparr>)"

text \<open>\<open>dropna(how='all', axis=1)\<close>: the columns whose cells are all null are removed.\<close>

definition drop_empty_columns :: "matrix \<Rightarrow> matrix" where
  "drop_empty_columns m =
     (let keep = filter (\<lambda>j. \<exists>r\<in>set (m_values m). r ! j \<noteq> Null) [0..<length (m_columns m)]
      in \<lparr> m_index = m_index m,
           m_columns = map (\<lambda>j. m_columns m ! j) keep,
           m_values = map (\<lambda>r. map (\<lambda>j. r ! j) keep) (m_values m) \<rparr>)"

text \<open>
  \<open>pivot_table(index, columns, values)\<close> with its defaults (\<open>aggfunc='mean'\<close>,
  \<open>dropna=True\<close>): the rows are grouped by (row label, column label) and averaged, the
  groups whose mean is null are dropped, the rest is unstacked and columns without any
  value are removed.
\<close>

definition pivot_table ::
  "('k \<Rightarrow> string) \<Rightarrow> ('k \<Rightarrow> string) \<Rightarrow> ('k \<times> cell) list \<Rightarrow> error + matrix" where
  "pivot_table idx col rows =
     (case groupby_agg (\<lambda>r. Some (idx (fst r), col (fst r))) snd agg_mean rows of
        Inl e \<Rightarrow> Inl e
      | Inr agged \<Rightarrow>
          Inr (drop_empty_columns (unstack (filter (\<lambda>e. snd e \<noteq> Null) agged))))"


definition fillna0_matrix :: "matrix \<Rightarrow> matrix" where
  "fillna0_matrix m = m \<lparr> m_values := map (map fillna0) (m_values m) \<rparr>"

section \<open>GenerateCharts.py (the script variant)\<close>

subsection \<open>Loading\<close>

text \<open>
  The two input files as the file system holds them: absent, or present with their
  parsed content. The brand configuration is opaque.
\<close>

record 'b files =
  csv_file :: "frame option"
  brand_file :: "'b option"

text \<open>\<open>open('eafitBrand.json')\<close> with \<open>json.load\<close>, and \<open>pd.read_csv('empresasEafit.csv')\<close>.\<close>

definition open_brand :: "'b files \<Rightarrow> error + 'b" where
  "open_brand fs =
     (case brand_file fs of
        None \<Rightarrow> Inl (FileNotFoundError ''eafitBrand.json'')
      | Some b \<Rightarrow> Inr b)"

definition read_csv :: "'b files \<Rightarrow> error + frame" where
  "read_csv fs =
     (case csv_file fs of
        None \<Rightarrow> Inl (FileNotFoundError ''empresasEafit.csv'')
      | Some df \<Rightarrow> Inr df)"

definition sentinels :: "string list" where
  "sentinels = [''0'', ''No'', ''No informa'', ''SI'', ''Si'']"

text \<open>\<open>column.isin(values)\<close> on one cell of a categorical column.\<close>

definition isin :: "string option \<Rightarrow> string list \<Rightarrow> bool" where
  "isin c vs = (case c of None \<Rightarrow> False | Some s \<Rightarrow> s \<in> set vs)"

text \<open>
  \<open>read_csv\<close> decides the type of a column from its cells: a column in which every
  non-empty cell is a numeral is read as a column of numbers, any other column as a
  column of texts in which every non-empty cell keeps its text. Which texts the reader
  takes for numerals is the library's matter and a parameter: \<open>numeric s\<close>. The sector
  column is read as text when one of its cells holds a text that is no numeral. (The
  file is read in one piece.)
\<close>

definition sector_read_as_text :: "(string \<Rightarrow> bool) \<Rightarrow> frame \<Rightarrow> bool" where
  "sector_read_as_text numeric csv \<longleftrightarrow>
     (\<exists>r\<in>set csv. case macrosector r of None \<Rightarrow> False | Some s \<Rightarrow> \<not> numeric s)"

text \<open>
  Lines 64 to 66 once the file is read: the rows for which \<open>isin\<close> holds are removed. The
  five values of the list are texts, and \<open>isin\<close> matches a text against no number: on a
  sector column read as numbers (where the model keeps the numeral as the label of the
  sector) no row is removed, the one with sector 0 included.
\<close>

definition load_raw_data :: "(string \<Rightarrow> bool) \<Rightarrow> frame \<Rightarrow> frame" where
  "load_raw_data numeric csv =
     (if sector_read_as_text numeric csv
      then filter (\<lambda>r. \<not> isin (macrosector r) sentinels) csv
      else csv)"

text \<open>
  The script from its first line: the brand file is opened, then the dataset is read
  and filtered, then the seventeen chart blocks run. An exception is not caught anywhere
  and ends the run. The chart blocks as a whole are the parameter \<open>charts\<close>: from the
  loaded table and the brand they give the chart files written and the exception that
  ended them, if any. The result of the script is of the same form.
\<close>

definition generate_charts ::
  "(string \<Rightarrow> bool) \<Rightarrow> (frame \<Rightarrow> 'b \<Rightarrow> string list \<times> error option) \<Rightarrow> 'b files
     \<Rightarrow> string list \<times> error option" where
  "generate_charts numeric charts fs =
     (case open_brand fs of
        Inl e \<Rightarrow> ([], Some e)
      | Inr brand \<Rightarrow>
          (case read_csv fs of
             Inl e \<Rightarrow> ([], Some e)
           | Inr csv \<Rightarrow> charts (load_raw_data numeric csv) brand))"

subsection \<open>Chart 1: radar by pillar and sector (lines 113 to 125)\<close>

definition radar_final_df :: "frame \<Rightarrow> error + matrix" where
  "radar_final_df raw_data =
     (case groupby_agg (key2 macrosector nombre_pilar) valoracionPonderada agg_mean raw_data of
        Inl e \<Rightarrow> Inl e
      | Inr means \<Rightarrow>
          (case pivot_table snd fst means of
             Inl e \<Rightarrow> Inl e
           | Inr m \<Rightarrow> Inr (fillna0_matrix m)))"

subsection \<open>Chart 4: the coercion of lines 222 and 223 and the company table\<close>

text \<open>
  Lines 222 and 223 assign to two columns of \<open>raw_data\<close> itself; \<open>coerce_scores\<close> is the
  table after them.
\<close>

definition coerce_scores :: "(string \<Rightarrow> rat option) \<Rightarrow> frame \<Rightarrow> frame" where
  "coerce_scores parse raw_data =
     map (\<lambda>r. r \<lparr> valoracionPonderada := fillna0 (to_numeric parse (valoracionPonderada r)),
                 ingresos_operacionales :=
                   fillna0 (to_numeric parse (ingresos_operacionales r)) \<rparr>)
       raw_data"

record company =
  c_razon_social :: string
  puntaje_total :: cell
  ingresos :: cell
  c_macrosector :: "string option"

text \<open>
  \<open>groupby('Razon social').agg(sum of the score, first income, first sector)\<close> with
  \<open>reset_index()\<close>.
\<close>

definition company_agg :: "arith \<Rightarrow> frame \<Rightarrow> error + company list" where
  "company_agg A df =
     collect (\<lambda>k. let g = group_rows razon_social k df in
                case agg_sum_in A (map valoracionPonderada g) of
                  Inl e \<Rightarrow> Inl e
                | Inr tot \<Rightarrow>
                    Inr \<lparr> c_razon_social = k, puntaje_total = tot,
                          ingresos = agg_first (map ingresos_operacionales g),
                          c_macrosector = agg_first_text (map macrosector g) \<rparr>)
       (group_keys razon_social df)"

text \<open>Lines 224 to 229, on the table that lines 222 and 223 left.\<close>

definition company_agg_data :: "arith \<Rightarrow> frame \<Rightarrow> error + company list" where
  "company_agg_data A raw_data =
     (case company_agg A raw_data of
        Inl e \<Rightarrow> Inl e
      | Inr cs \<Rightarrow> select (\<lambda>c. gt0 (ingresos c)) cs)"

subsection \<open>Chart 5: the coercion of line 260\<close>

definition coerce_year ::
  "(string \<Rightarrow> rat option) \<Rightarrow> 'a row_scheme list \<Rightarrow> 'a row_scheme list" where
  "coerce_year parse raw_data =
     map (\<lambda>r. r \<lparr> ano_de_fundacion := to_numeric parse (ano_de_fundacion r) \<rparr>) raw_data"

subsection \<open>The shared table along the script\<close>

text \<open>
  What the block of chart \<open>k\<close> does to \<open>raw_data\<close>: block 4 assigns the two coerced columns
  and block 5 the coerced year, both before their own aggregation; no other block assigns
  to \<open>raw_data\<close> or calls an in-place operation on it. \<open>raw_data_read parse k t\<close> is the table
  that the aggregation of chart \<open>k\<close> reads when the loader produced \<open>t\<close>.
\<close>

definition chart_effect :: "(string \<Rightarrow> rat option) \<Rightarrow> nat \<Rightarrow> frame \<Rightarrow> frame" where
  "chart_effect parse k raw_data =
     (if k = 4 then coerce_scores parse raw_data
      else if k = 5 then coerce_year parse raw_data
      else raw_data)"

definition raw_data_read :: "(string \<Rightarrow> rat option) \<Rightarrow> nat \<Rightarrow> frame \<Rightarrow> frame" where
  "raw_data_read parse k t = fold (chart_effect parse) [1..<Suc k] t"

subsection \<open>Chart 7: the Sankey nodes (lines 334 to 343)\<close>

record flow =
  flow_source :: string
  flow_target :: string
  flow_value :: cell

definition to_flow :: "(string \<times> string) \<times> cell \<Rightarrow> flow" where
  "to_flow e = \<lparr> flow_source = fst (fst e), flow_target = snd (fst e), flow_value = snd e \<rparr>"

text \<open>\<open>flow1\<close>, \<open>flow2\<close> and their concatenation (lines 334 to 338).\<close>

definition flow1 :: "frame \<Rightarrow> error + flow list" where
  "flow1 raw_data =
     (case groupby_agg (key2 bloque nombre_pilar) valoracionPonderada agg_sum raw_data of
        Inl e \<Rightarrow> Inl e
      | Inr g \<Rightarrow> Inr (map to_flow g))"

definition flow2 :: "frame \<Rightarrow> error + flow list" where
  "flow2 raw_data =
     (case groupby_agg (key2 nombre_pilar macrosector) valoracionPonderada agg_sum raw_data of
        Inl e \<Rightarrow> Inl e
      | Inr g \<Rightarrow> Inr (map to_flow g))"

definition concat_flows :: "frame \<Rightarrow> error + flow list" where
  "concat_flows raw_data =
     (case flow1 raw_data of
        Inl e \<Rightarrow> Inl e
      | Inr f1 \<Rightarrow> (case flow2 raw_data of Inl e \<Rightarrow> Inl e | Inr f2 \<Rightarrow> Inr (f1 @ f2)))"

text \<open>Line 339: only the flows with a positive value are kept.\<close>

definition sankey_data :: "frame \<Rightarrow> error + flow list" where
  "sankey_data raw_data =
     (case concat_flows raw_data of
        Inl e \<Rightarrow> Inl e
      | Inr fs \<Rightarrow> select (\<lambda>f. gt0 (flow_value f)) fs)"

text \<open>
  Line 340: the two label columns are read column by column (all sources, then all
  targets) and reduced to their distinct values in order of first appearance.
\<close>

definition unique_nodes :: "flow list \<Rightarrow> string list" where
  "unique_nodes sd = pd_unique (map flow_source sd @ map flow_target sd)"

text \<open>
  Line 341: \<open>{node: i for i, node in enumerate(unique_nodes)}\<close>; a later pair overrides
  an earlier one with the same key.
\<close>

definition node_mapping :: "string list \<Rightarrow> (string \<rightharpoonup> nat)" where
  "node_mapping nodes = fold (\<lambda>(i, node) m. m(node \<mapsto> i)) (enumerate 0 nodes) Map.empty"

text \<open>Lines 342 and 343: the ids of the two ends of each flow; a missing key gives none.\<close>

definition source_id :: "flow list \<Rightarrow> nat option list" where
  "source_id sd = map (\<lambda>f. node_mapping (unique_nodes sd) (flow_source f)) sd"

definition target_id :: "flow list \<Rightarrow> nat option list" where
  "target_id sd = map (\<lambda>f. node_mapping (unique_nodes sd) (flow_target f)) sd"

subsection \<open>Chart 10: performance relative to the sector (lines 409 to 414)\<close>

definition sector_avg_score :: "arith \<Rightarrow> company list \<Rightarrow> error + (string \<times> cell) list" where
  "sector_avg_score A cs = groupby_agg c_macrosector puntaje_total (agg_mean_in A) cs"

text \<open>
  \<open>pd.merge(left, right, on='Macrosector')\<close>: an inner join in the order of the left
  rows. The right table comes from a grouping and has no null key, so a company without
  a sector finds no partner.
\<close>

definition merge_sector ::
  "company list \<Rightarrow> (string \<times> cell) list \<Rightarrow> (company \<times> string \<times> cell) list" where
  "merge_sector cs avgs =
     concat (map (\<lambda>c. case c_macrosector c of
                        None \<Rightarrow> []
                      | Some s \<Rightarrow> map (\<lambda>a. (c, s, snd a)) (filter (\<lambda>a. fst a = s) avgs)) cs)"

text \<open>
  The difference of two cells of numeric columns, in the arithmetic of the columns: null
  when one of them is null, \<open>TypeError\<close> when one of them is a text.
\<close>

definition sub_cell :: "arith \<Rightarrow> cell \<Rightarrow> cell \<Rightarrow> error + rat option" where
  "sub_cell A a b =
     (if is_text a \<or> is_text b then Inl TypeError
      else (case (a, b) of (Num x, Num y) \<Rightarrow> Inr (Some (asub A x y)) | _ \<Rightarrow> Inr None))"

text \<open>\<open>np.where(difference >= 0, ..., ...)\<close> on one cell; a null difference is not \<open>>= 0\<close>.\<close>

definition relative_label :: "rat option \<Rightarrow> string" where
  "relative_label d =
     (case d of
        Some x \<Rightarrow> (if 0 \<le> x then ''Superior al Promedio'' else ''Inferior al Promedio'')
      | None \<Rightarrow> ''Inferior al Promedio'')"

record diverging =
  d_company :: company
  d_macrosector :: string
  promedio_sector :: cell
  diferencia_vs_promedio :: "rat option"
  desempeno_relativo :: string

text \<open>The key of \<open>sort_values(by=['Macrosector', 'Diferencia_vs_Promedio'])\<close>; nulls last.\<close>

definition diverging_key :: "diverging \<Rightarrow> string \<times> bool \<times> rat" where
  "diverging_key d =
     (d_macrosector d,
      (case diferencia_vs_promedio d of None \<Rightarrow> (True, 0) | Some x \<Rightarrow> (False, x)))"

definition diverging_data :: "arith \<Rightarrow> company list \<Rightarrow> error + diverging list" where
  "diverging_data A cs =
     (case sector_avg_score A cs of
        Inl e \<Rightarrow> Inl e
      | Inr avgs \<Rightarrow>
          (case collect (\<lambda>(c, s, avg). case sub_cell A (puntaje_total c) avg of
                                        Inl e \<Rightarrow> Inl e
                                      | Inr d \<Rightarrow>
                                          Inr \<lparr> d_company = c, d_macrosector = s,
                                                promedio_sector = avg,
                                                diferencia_vs_promedio = d,
                                                desempeno_relativo = relative_label d \<rparr>)
                  (merge_sector cs avgs) of
             Inl e \<Rightarrow> Inl e
           | Inr ds \<Rightarrow> Inr (sort_key diverging_key ds)))"

subsection \<open>Chart 13: variable by sector (lines 501 to 506)\<close>


subsection \<open>Chart 14: income against score on a logarithmic axis (line 526)\<close>


subsection \<open>The complete matrix of group means, as the specification words it\<close>




section \<open>index.py (the function variant)\<close>

subsection \<open>Loading and the main procedure\<close>

text \<open>
  What the run leaves behind: whether the directory \<open>charts\<close> exists, the lines printed
  (by their kind) and the chart files written.
\<close>

datatype printed = Dir_created | Missing_file string | Configured | Started | Completed

record world =
  charts_dir :: bool
  stdout :: "printed list"
  written :: "string list"

definition print :: "printed \<Rightarrow> world \<Rightarrow> world" where
  "print p w = w \<lparr> stdout := stdout w @ [p] \<rparr>"

text \<open>
  \<open>setup_environment\<close>: the directory is created when absent; the dataset is read, then
  the brand file; \<open>FileNotFoundError\<close> is caught, the name of the file is printed and
  \<open>(None, None)\<close> is returned; any other exception is not caught. The table is returned
  as it was read. The registration of the chart theme only reads the brand.
\<close>

definition setup_environment ::
  "'b files \<Rightarrow> world \<Rightarrow> world \<times> (error + (frame \<times> 'b) option)" where
  "setup_environment fs w =
     (let w1 = (if charts_dir w then w else print Dir_created (w \<lparr> charts_dir := True \<rparr>));
          loaded = (case read_csv fs of
                      Inl e \<Rightarrow> Inl e
                    | Inr df \<Rightarrow> (case open_brand fs of
                                  Inl e \<Rightarrow> Inl e
                                | Inr brand_config \<Rightarrow> Inr (df, brand_config)))
      in case loaded of
           Inl (FileNotFoundError filename) \<Rightarrow> (print (Missing_file filename) w1, Inr None)
         | Inl e \<Rightarrow> (w1, Inl e)
         | Inr (df, brand_config) \<Rightarrow> (print Configured w1, Inr (Some (df, brand_config))))"

text \<open>
  \<open>main\<close>: the fifteen chart procedures are called only when both results of
  \<open>setup_environment\<close> are present. Their sequence (lines 322 to 336) is the parameter
  \<open>generate_all\<close>: from the table and the state before, the state after and the exception
  that ended the sequence, if any.
\<close>

definition main ::
  "(frame \<Rightarrow> world \<Rightarrow> world \<times> error option) \<Rightarrow> 'b files \<Rightarrow> world \<Rightarrow> world \<times> error option" where
  "main generate_all fs w =
     (case setup_environment fs w of
        (w1, Inl e) \<Rightarrow> (w1, Some e)
      | (w1, Inr None) \<Rightarrow> (w1, None)
      | (w1, Inr (Some (df, brand_config))) \<Rightarrow>
          (case generate_all df (print Started w1) of
             (w2, Some e) \<Rightarrow> (w2, Some e)
           | (w2, None) \<Rightarrow> (print Completed w2, None)))"

subsection \<open>Tables as objects\<close>

text \<open>
  The chart procedures receive the table by reference. The heap is the list of the
  table objects allocated so far and a reference is a position in it; \<open>df.copy()\<close>
  allocates a new object with the same rows. The table of index.py has more columns
  than the modelled ones of \<open>row\<close>; the procedures below work on rows with any further
  columns.
\<close>

type_synonym 'r heap = "'r list list"

definition copy_frame :: "'r heap \<Rightarrow> nat \<Rightarrow> nat \<times> 'r heap" where
  "copy_frame h df = (length h, h @ [h ! df])"

subsection \<open>Chart 1 (line 93)\<close>

definition radar_data :: "frame \<Rightarrow> error + ((string \<times> string) \<times> cell) list" where
  "radar_data df = groupby_agg (key2 macrosector nombre_pilar) valoracionPonderada agg_mean df"

subsection \<open>Chart 5: income against performance (lines 142 to 157)\<close>

record performance =
  p_razon_social :: string
  total_performance :: cell
  income :: cell
  p_macrosector :: "string option"

definition company_performance :: "arith \<Rightarrow> 'a row_scheme list \<Rightarrow> error + performance list" where
  "company_performance A df_chart =
     collect (\<lambda>k. let g = group_rows razon_social k df_chart in
                case agg_sum_in A (map valoracionPonderada g) of
                  Inl e \<Rightarrow> Inl e
                | Inr tot \<Rightarrow>
                    Inr \<lparr> p_razon_social = k, total_performance = tot,
                          income = agg_first (map ingresos_operacionales g),
                          p_macrosector = agg_first_text (map macrosector g) \<rparr>)
       (group_keys razon_social df_chart)"

text \<open>
  Line 146 assigns the coerced income column to the copy. Line 148 then calls
  \<open>fillna(0, inplace=True)\<close> not on the copy but on the column selected from it
  (\<open>df_chart[column].fillna(0, inplace=True)\<close>). Whether that reaches the copy depends on
  the library: without copy-on-write the selected column shares its data with the table
  and the nulls of the table are filled; with copy-on-write (the rule from pandas 3 on)
  the selected column is an object of its own and the table keeps its nulls. The
  repository fixes no version of the library, so which of the two happens is the
  parameter \<open>chained\<close>: true when the in-place call on the selected column reaches the
  table. \<open>income_column parse chained df\<close> is the copy after lines 146 and 148.
\<close>

definition coerce_income ::
  "(string \<Rightarrow> rat option) \<Rightarrow> 'a row_scheme list \<Rightarrow> 'a row_scheme list" where
  "coerce_income parse df =
     map (\<lambda>r. r \<lparr> ingresos_operacionales :=
                   fillna0 (to_numeric parse (ingresos_operacionales r)) \<rparr>) df"

definition income_column ::
  "(string \<Rightarrow> rat option) \<Rightarrow> bool \<Rightarrow> 'a row_scheme list \<Rightarrow> 'a row_scheme list" where
  "income_column parse chained df =
     (if chained then coerce_income parse df
      else map (\<lambda>r. r \<lparr> ingresos_operacionales :=
                        to_numeric parse (ingresos_operacionales r) \<rparr>) df)"

text \<open>
  \<open>generate_chart_05_scatter_income_vs_performance\<close> up to \<open>plot_data\<close>: the heap it
  leaves and the rows it plots, or the exception raised by the aggregation.
\<close>

definition generate_chart_05 ::
  "(string \<Rightarrow> rat option) \<Rightarrow> bool \<Rightarrow> arith \<Rightarrow> 'a row_scheme heap \<Rightarrow> nat
     \<Rightarrow> 'a row_scheme heap \<times> (error + performance list)" where
  "generate_chart_05 parse chained A h df =
     (case copy_frame h df of
        (df_chart, h1) \<Rightarrow>
          let h2 = h1 [df_chart :=
                    map (\<lambda>r. r \<lparr> ingresos_operacionales :=
                                  to_numeric parse (ingresos_operacionales r) \<rparr>)
                      (h1 ! df_chart)];
              h3 = (if chained
                    then h2 [df_chart :=
                           map (\<lambda>r. r \<lparr> ingresos_operacionales :=
                                         fillna0 (ingresos_operacionales r) \<rparr>)
                             (h2 ! df_chart)]
                    else h2)
          in (h3,
              case company_performance A (h3 ! df_chart) of
                Inl e \<Rightarrow> Inl e
              | Inr cp \<Rightarrow> select (\<lambda>c. gt0 (income c)) cp))"

subsection \<open>Chart 11: founding years (lines 233 to 239)\<close>

text \<open>\<open>drop_duplicates(subset=key)\<close>: the first row of every key value is kept.\<close>

fun drop_dup :: "('r \<Rightarrow> 'k) \<Rightarrow> 'k set \<Rightarrow> 'r list \<Rightarrow> 'r list" where
  "drop_dup key seen [] = []"
| "drop_dup key seen (r # rs) =
     (if key r \<in> seen then drop_dup key seen rs
      else r # drop_dup key (insert (key r) seen) rs)"

text \<open>
  Here \<open>dropna(..., inplace=True)\<close> is called on the copy itself and removes its rows
  whatever the version of the library.
\<close>

definition generate_chart_11 ::
  "(string \<Rightarrow> rat option) \<Rightarrow> 'a row_scheme heap \<Rightarrow> nat
     \<Rightarrow> 'a row_scheme heap \<times> 'a row_scheme list" where
  "generate_chart_11 parse h df =
     (case copy_frame h df of
        (df_chart, h1) \<Rightarrow>
          let h2 = h1 [df_chart := coerce_year parse (h1 ! df_chart)];
              h3 = h2 [df_chart := filter (\<lambda>r. ano_de_fundacion r \<noteq> Null) (h2 ! df_chart)]
          in (h3, drop_dup razon_social {} (h3 ! df_chart)))"

subsection \<open>Chart 13: materiality against performance (lines 260 to 265)\<close>

text \<open>
  The two further columns that chart 13 cleans: \<open>Ponderacion Materialidad\<close> and
  \<open>Valoracion\<close>.
\<close>

record row_v2 = row +
  ponderacion_materialidad :: cell
  valoracion :: cell

text \<open>
  \<open>astype(str)\<close> on one cell is the library's and a parameter, \<open>astype_str\<close>: a text is
  kept and a number is printed; the null marker becomes the text \<open>nan\<close> or, from pandas 3
  on, stays null. \<open>str.replace('%', '', regex=False)\<close> removes every percent sign of a
  text and gives null on a cell that is no text.
\<close>

definition remove_percent :: "string \<Rightarrow> string" where
  "remove_percent s = filter (\<lambda>c. c \<noteq> CHR ''%'') s"

definition str_replace_percent :: "cell \<Rightarrow> cell" where
  "str_replace_percent c = (case c of Text s \<Rightarrow> Text (remove_percent s) | _ \<Rightarrow> Null)"

text \<open>
  \<open>generate_chart_13_heatmap_materiality_vs_performance\<close> up to the end of its
  cleaning: the three assignments of lines 263 to 265 go to columns of the copy. The
  aggregation that follows reads the copy and returns a new table.
\<close>

definition generate_chart_13 ::
  "(string \<Rightarrow> rat option) \<Rightarrow> (cell \<Rightarrow> cell) \<Rightarrow> 'a row_v2_scheme heap \<Rightarrow> nat
     \<Rightarrow> 'a row_v2_scheme heap" where
  "generate_chart_13 parse astype_str h df =
     (case copy_frame h df of
        (df_chart, h1) \<Rightarrow>
          let h2 = h1 [df_chart :=
                    map (\<lambda>r. r \<lparr> ponderacion_materialidad :=
                                  str_replace_percent
                                    (astype_str (ponderacion_materialidad r)) \<rparr>)
                      (h1 ! df_chart)];
              h3 = h2 [df_chart :=
                    map (\<lambda>r. r \<lparr> ponderacion_materialidad :=
                                  fillna0 (to_numeric parse (ponderacion_materialidad r)) \<rparr>)
                      (h2 ! df_chart)];
              h4 = h3 [df_chart :=
                    map (\<lambda>r. r \<lparr> valoracion := fillna0 (to_numeric parse (valoracion r)) \<rparr>)
                      (h3 ! df_chart)]
          in h4)"

subsection \<open>The table along the fifteen chart procedures\<close>

text \<open>
  What the \<open>k\<close>-th chart procedure of \<open>main\<close> does to the heap when it is handed the
  reference \<open>df\<close>. Procedures 5, 11 and 13 are the ones above. The other twelve (1 to 4,
  6 to 10, 12, 14 and 15) assign to nothing and call no in-place operation: each passes
  \<open>df\<close>, or the result of \<open>groupby\<close>, \<open>mean\<close>, \<open>sum\<close>, \<open>nunique\<close>, \<open>sort_values\<close>, \<open>head\<close> and
  \<open>reset_index\<close> on it, which are new objects that the procedure drops on return, to
  the plotting library; they leave the heap as they found it.
\<close>

definition chart_heap ::
  "(string \<Rightarrow> rat option) \<Rightarrow> (cell \<Rightarrow> cell) \<Rightarrow> bool \<Rightarrow> arith \<Rightarrow> nat
     \<Rightarrow> 'a row_v2_scheme heap \<Rightarrow> nat \<Rightarrow> 'a row_v2_scheme heap" where
  "chart_heap parse astype_str chained A k h df =
     (if k = 5 then fst (generate_chart_05 parse chained A h df)
      else if k = 11 then fst (generate_chart_11 parse h df)
      else if k = 13 then generate_chart_13 parse astype_str h df
      else h)"

text \<open>
  The heap after the first \<open>k\<close> chart procedures of \<open>main\<close> (lines 322 to 336), each called
  with the same reference \<open>df\<close>.
\<close>

definition heap_after ::
  "(string \<Rightarrow> rat option) \<Rightarrow> (cell \<Rightarrow> cell) \<Rightarrow> bool \<Rightarrow> arith \<Rightarrow> nat
     \<Rightarrow> 'a row_v2_scheme heap \<Rightarrow> nat \<Rightarrow> 'a row_v2_scheme heap" where
  "heap_after parse astype_str chained A k h df =
     fold (\<lambda>j h'. chart_heap parse astype_str chained A j h' df) [1..<Suc k] h"

section \<open>Properties of the dataframe operations\<close>

lemma collect_pure: "collect (\<lambda>x. Inr (g x)) xs = Inr (map g xs)"
  by (induction xs) auto

lemma collect_cong:
  "\<forall>x\<in>set xs. f x = g x \<Longrightarrow> collect f xs = collect g xs"
  by (induction xs) (auto split: sum.splits)

lemma collect_Inr:
  "(\<And>x. x \<in> set xs \<Longrightarrow> f x = Inr (g x)) \<Longrightarrow> collect f xs = Inr (map g xs)"
  using collect_cong [of xs f "\<lambda>x. Inr (g x)"] by (simp add: collect_pure)


lemma collect_Inl:
  "x \<in> set xs \<Longrightarrow> f x = Inl e \<Longrightarrow> \<exists>e'. collect f xs = Inl e'"
  by (induction xs) (auto split: sum.splits)

lemma mask_filter: "map fst (filter snd (zip xs (map q xs))) = filter q xs"
  by (induction xs) auto

lemma select_Inr:
  "(\<And>x. x \<in> set xs \<Longrightarrow> p x = Inr (q x)) \<Longrightarrow> select p xs = Inr (filter q xs)"
  by (simp add: select_def collect_Inr mask_filter)

lemma select_Inl:
  "x \<in> set xs \<Longrightarrow> p x = Inl e \<Longrightarrow> \<exists>e'. select p xs = Inl e'"
  using collect_Inl [of x xs p e] by (auto simp: select_def)

lemma set_map_filter: "set (List.map_filter f xs) = {y. \<exists>x\<in>set xs. f x = Some y}"
  by (induction xs) (auto split: option.splits)

lemma set_group_keys: "set (group_keys key rows) = {k. \<exists>r\<in>set rows. key r = Some k}"
  by (simp add: group_keys_def set_map_filter)

lemma distinct_group_keys: "distinct (group_keys key rows)"
  by (simp add: group_keys_def)

lemma sorted_group_keys: "sorted (group_keys key rows)"
  by (simp add: group_keys_def)

lemma group_rows_nonempty:
  "k \<in> set (group_keys key rows) \<Longrightarrow> group_rows key k rows \<noteq> []"
  by (auto simp: set_group_keys group_rows_def filter_empty_conv)

lemma set_group_rows: "set (group_rows key k rows) = {r \<in> set rows. key r = Some k}"
  by (auto simp: group_rows_def)

lemma sum_cells_Num:
  "\<forall>c\<in>set cs. \<exists>x. c = Num x \<Longrightarrow> sum_cells (Num a) cs = Inr (Num (a + sum_list (nums cs)))"
  by (induction cs arbitrary: a) (auto simp: add.assoc)

lemma nums_filter_present: "nums (filter (\<lambda>c. c \<noteq> Null) cs) = nums cs"
  by (induction cs rule: nums.induct) auto

lemma agg_sum_no_text:
  assumes "\<forall>c\<in>set cells. \<not> is_text c"
  shows "agg_sum cells = Inr (Num (sum_list (nums cells)))"
proof -
  let ?p = "filter (\<lambda>c. c \<noteq> Null) cells"
  have num: "\<forall>c\<in>set ?p. \<exists>x. c = Num x"
  proof
    fix c assume "c \<in> set ?p"
    with assms show "\<exists>x. c = Num x" by (cases c) auto
  qed
  show ?thesis
  proof (cases ?p)
    case Nil
    then have "nums ?p = []" by simp
    then have "nums cells = []" by (simp add: nums_filter_present)
    with Nil show ?thesis by (simp add: agg_sum_def)
  next
    case (Cons c cs)
    with num obtain a where a: "c = Num a" by auto
    from Cons num have "\<forall>c\<in>set cs. \<exists>x. c = Num x" by simp
    then have "sum_cells (Num a) cs = Inr (Num (a + sum_list (nums cs)))"
      by (rule sum_cells_Num)
    moreover have "nums cells = a # nums cs"
      using Cons a nums_filter_present [of cells] by simp
    ultimately show ?thesis
      using Cons a by (simp add: agg_sum_def)
  qed
qed


lemma agg_mean_text:
  "\<exists>c\<in>set cells. is_text c \<Longrightarrow> agg_mean cells = Inl TypeError"
  by (simp add: agg_mean_def)

lemma groupby_agg_Inr:
  "(\<And>k. k \<in> set (group_keys key rows) \<Longrightarrow>
      agg (map col (group_rows key k rows)) = Inr (v k)) \<Longrightarrow>
   groupby_agg key col agg rows = Inr (map (\<lambda>k. (k, v k)) (group_keys key rows))"
  unfolding groupby_agg_def by (rule collect_Inr) simp


subsection \<open>Joining and splitting\<close>

lemma join_snoc:
  "xs \<noteq> [] \<Longrightarrow> join sep (xs @ [w]) = join sep xs @ sep @ w"
  by (induction sep xs rule: join.induct) auto

lemma length_join:
  "xs \<noteq> [] \<Longrightarrow>
   int (length (join sep xs)) =
     int (length (concat xs)) + int (length sep) * (int (length xs) - 1)"
  by (induction sep xs rule: join.induct) (auto simp: algebra_simps)

lemma length_join_snoc_blank:
  "int (length (join '' '' (cur @ [w]))) =
     int (length (concat cur)) + int (length w) + int (length cur)"
  using length_join [of "cur @ [w]" "'' ''"] by simp

lemma wrap_loop_greedy:
  "current_length = int (length (concat current_line)) \<Longrightarrow>
   wrap_loop m words lines current_line current_length = (lines', cur', len') \<Longrightarrow>
   (if cur' \<noteq> [] then lines' @ [join '' '' cur'] else lines') =
     lines @ map (join '' '') (greedy_lines m current_line words)"
proof (induction words arbitrary: lines current_line current_length)
  case Nil
  then show ?case by auto
next
  case (Cons w ws)
  show ?case
  proof (cases "current_length + int (length w) + int (length current_line) > m
                 \<and> current_line \<noteq> []")
    case True
    with Cons.prems have run:
      "wrap_loop m ws (lines @ [join '' '' current_line]) [w] (int (length w))
         = (lines', cur', len')"
      by simp
    have "(if cur' \<noteq> [] then lines' @ [join '' '' cur'] else lines') =
            (lines @ [join '' '' current_line]) @ map (join '' '') (greedy_lines m [w] ws)"
      by (rule Cons.IH [OF _ run]) simp
    with True Cons.prems(1) show ?thesis
      by (simp add: length_join_snoc_blank)
  next
    case False
    with Cons.prems have run:
      "wrap_loop m ws lines (current_line @ [w]) (current_length + int (length w))
         = (lines', cur', len')"
      by (simp split: if_splits)
    have "(if cur' \<noteq> [] then lines' @ [join '' '' cur'] else lines') =
            lines @ map (join '' '') (greedy_lines m (current_line @ [w]) ws)"
      by (rule Cons.IH [OF _ run]) (simp add: Cons.prems(1))
    with False Cons.prems(1) show ?thesis
      by (auto simp: length_join_snoc_blank)
  qed
qed

lemma wrap_text_lines:
  "wrap_text text m =
     (if int (length text) \<le> m then text
      else join ''<br>'' (map (join '' '') (greedy_lines m [] (split text))))"
proof (cases "int (length text) \<le> m")
  case True
  then show ?thesis by (simp add: wrap_text_def)
next
  case False
  obtain lines' cur' len' where
    run: "wrap_loop m (split text) [] [] 0 = (lines', cur', len')"
    by (cases "wrap_loop m (split text) [] [] 0") auto
  have "(if cur' \<noteq> [] then lines' @ [join '' '' cur'] else lines') =
          [] @ map (join '' '') (greedy_lines m [] (split text))"
    by (rule wrap_loop_greedy [OF _ run]) simp
  with False run show ?thesis by (simp add: wrap_text_def)
qed

lemma split_run_words:
  "\<forall>c\<in>set acc. \<not> isspace c \<Longrightarrow> w \<in> set (split_run acc s) \<Longrightarrow>
   w \<noteq> [] \<and> (\<forall>c\<in>set w. \<not> isspace c) \<and> sublist w (acc @ s)"
proof (induction s arbitrary: acc)
  case Nil
  then show ?case by (auto split: if_splits)
next
  case (Cons c cs)
  show ?case
  proof (cases "isspace c")
    case True
    with Cons.prems(2) consider "w = acc" "acc \<noteq> []" | "w \<in> set (split_run [] cs)"
      by (auto split: if_splits)
    then show ?thesis
    proof cases
      case 1
      with Cons.prems(1) show ?thesis by auto
    next
      case 2
      from Cons.IH [OF _ 2] have "w \<noteq> []" "\<forall>c\<in>set w. \<not> isspace c" "sublist w cs"
        by auto
      moreover from \<open>sublist w cs\<close> have "sublist w (acc @ c # cs)"
        by (metis sublist_append sublist_Cons_right)
      ultimately show ?thesis by simp
    qed
  next
    case False
    with Cons.prems(2) have "w \<in> set (split_run (acc @ [c]) cs)" by simp
    from Cons.IH [OF _ this] False Cons.prems(1) show ?thesis by auto
  qed
qed

lemma split_words:
  "w \<in> set (split text) \<Longrightarrow> w \<noteq> [] \<and> (\<forall>c\<in>set w. \<not> isspace c) \<and> sublist w text"
  using split_run_words [of "[]" w "text"] by (simp add: split_def)

lemma split_run_word:
  "\<forall>c\<in>set w. \<not> isspace c \<Longrightarrow> split_run acc (w @ rest) = split_run (acc @ w) rest"
  by (induction w arbitrary: acc) auto

lemma isspace_blank: "isspace (CHR '' '')"
  by (simp add: isspace_def)

lemma split_run_join:
  "\<forall>w\<in>set ws. w \<noteq> [] \<and> (\<forall>c\<in>set w. \<not> isspace c) \<Longrightarrow>
   \<forall>c\<in>set acc. \<not> isspace c \<Longrightarrow> ws \<noteq> [] \<Longrightarrow>
   split_run acc (join '' '' ws) = (acc @ hd ws) # tl ws"
proof (induction "'' ''" ws arbitrary: acc rule: join.induct)
  case 1
  then show ?case by simp
next
  case (2 x)
  then show ?case using split_run_word [of x acc "[]"] by simp
next
  case (3 x y ys)
  have "split_run acc (join '' '' (x # y # ys)) = split_run (acc @ x) ('' '' @ join '' '' (y # ys))"
    using 3 split_run_word [of x acc] by simp
  also have "\<dots> = (acc @ x) # split_run [] (join '' '' (y # ys))"
    using 3 by (simp add: isspace_blank)
  also have "split_run [] (join '' '' (y # ys)) = ([] @ hd (y # ys)) # tl (y # ys)"
    by (rule 3(1)) (use 3 in auto)
  finally show ?case by simp
qed

lemma split_join:
  "\<forall>w\<in>set ws. w \<noteq> [] \<and> (\<forall>c\<in>set w. \<not> isspace c) \<Longrightarrow> split (join '' '' ws) = ws"
  using split_run_join [of ws "[]"] by (cases ws) (auto simp: split_def)

lemma sublist_across:
  assumes "c \<notin> set xs" and "sublist xs (ys @ c # zs)"
  shows "sublist xs ys \<or> sublist xs zs"
proof -
  from assms(2) consider "sublist xs ys" | "sublist xs (c # zs)"
    | xs1 xs2 where "xs = xs1 @ xs2" "suffix xs1 ys" "prefix xs2 (c # zs)"
    by (auto simp: sublist_append)
  then show ?thesis
  proof cases
    case 1
    then show ?thesis by simp
  next
    case 2
    then have "prefix xs (c # zs) \<or> sublist xs zs" by (simp add: sublist_Cons_right)
    with assms(1) show ?thesis by (cases xs) auto
  next
    case 3
    with assms(1) have "xs2 = []" by (cases xs2) auto
    with 3 show ?thesis by auto
  qed
qed

lemma no_marker_join:
  "\<forall>w\<in>set ws. \<not> sublist ''<br>'' w \<Longrightarrow> \<not> sublist ''<br>'' (join '' '' ws)"
proof (induction "'' ''" ws rule: join.induct)
  case 1
  then show ?case by simp
next
  case (2 x)
  then show ?case by simp
next
  case (3 x y ys)
  have "\<not> sublist ''<br>'' (x @ CHR '' '' # join '' '' (y # ys))"
    using sublist_across [of "CHR '' ''" "''<br>''" x "join '' '' (y # ys)"] 3 by auto
  then show ?case by simp
qed

lemma split_br_no_marker:
  "\<not> sublist ''<br>'' l \<Longrightarrow> split_br acc l = [acc @ l]"
proof (induction l arbitrary: acc)
  case Nil
  then show ?case by simp
next
  case (Cons c l)
  have "take 4 (c # l) \<noteq> ''<br>''"
    using Cons.prems sublist_take [of 4 "c # l"] by metis
  moreover have "\<not> sublist ''<br>'' l"
    using Cons.prems by (simp add: sublist_Cons_right)
  ultimately show ?case using Cons.IH [of "acc @ [c]"] by simp
qed

lemma take4_marker:
  assumes "\<not> sublist ''<br>'' (c # l)"
  shows "take 4 (c # l @ ''<br>'' @ rest) \<noteq> ''<br>''"
proof (cases "3 \<le> length l")
  case True
  then have "take 4 (c # l @ ''<br>'' @ rest) = take 4 (c # l)" by simp
  with assms sublist_take [of 4 "c # l"] show ?thesis by metis
next
  case False
  then consider "l = []" | a where "l = [a]" | a b where "l = [a, b]"
    by (cases l; cases "tl l"; cases "tl (tl l)") auto
  then show ?thesis by cases auto
qed

lemma split_br_marker:
  "\<not> sublist ''<br>'' l \<Longrightarrow>
   split_br acc (l @ ''<br>'' @ rest) = (acc @ l) # split_br [] rest"
proof (induction l arbitrary: acc)
  case Nil
  then show ?case by simp
next
  case (Cons c l)
  have "take 4 (c # l @ ''<br>'' @ rest) \<noteq> ''<br>''"
    by (rule take4_marker [OF Cons.prems])
  moreover have "\<not> sublist ''<br>'' l"
    using Cons.prems by (simp add: sublist_Cons_right)
  ultimately show ?case using Cons.IH [of "acc @ [c]"] by simp
qed

lemma split_br_join:
  "\<forall>l\<in>set ls. \<not> sublist ''<br>'' l \<Longrightarrow> ls \<noteq> [] \<Longrightarrow>
   split_br [] (join ''<br>'' ls) = ls"
proof (induction "''<br>''" ls rule: join.induct)
  case 1
  then show ?case by simp
next
  case (2 x)
  then show ?case by (simp add: split_br_no_marker)
next
  case (3 x y ys)
  have "split_br [] (x @ ''<br>'' @ join ''<br>'' (y # ys))
          = ([] @ x) # split_br [] (join ''<br>'' (y # ys))"
    by (rule split_br_marker) (use 3 in simp)
  with 3 show ?case by simp
qed

lemma concat_greedy_lines: "concat (greedy_lines m cur ws) = cur @ ws"
  by (induction ws arbitrary: cur) auto

lemma greedy_lines_nonempty: "l \<in> set (greedy_lines m cur ws) \<Longrightarrow> l \<noteq> []"
  by (induction ws arbitrary: cur) (auto split: if_splits)

lemma greedy_lines_fit:
  "2 \<le> length cur \<longrightarrow> int (length (join '' '' cur)) \<le> m \<Longrightarrow>
   l \<in> set (greedy_lines m cur ws) \<Longrightarrow>
   2 \<le> length l \<Longrightarrow> int (length (join '' '' l)) \<le> m"
proof (induction ws arbitrary: cur)
  case Nil
  then show ?case by (auto split: if_splits)
next
  case (Cons w ws)
  show ?case
  proof (cases "cur \<noteq> [] \<and> int (length (join '' '' (cur @ [w]))) > m")
    case True
    with Cons.prems(2) consider "l = cur" | "l \<in> set (greedy_lines m [w] ws)" by auto
    then show ?thesis
    proof cases
      case 1
      with Cons.prems show ?thesis by simp
    next
      case 2
      show ?thesis by (rule Cons.IH [OF _ 2 Cons.prems(3)]) simp
    qed
  next
    case False
    with Cons.prems(2) have in_rest: "l \<in> set (greedy_lines m (cur @ [w]) ws)"
      by (auto split: if_splits)
    have "2 \<le> length (cur @ [w]) \<longrightarrow> int (length (join '' '' (cur @ [w]))) \<le> m"
      using False by (cases cur) auto
    from Cons.IH [OF this in_rest Cons.prems(3)] show ?thesis .
  qed
qed

lemma length_le_join: "w \<in> set l \<Longrightarrow> length w \<le> length (join sep l)"
  by (induction sep l rule: join.induct) auto

lemma greedy_lines_long_word:
  assumes "l \<in> set (greedy_lines m [] ws)" and "w \<in> set l" and "int (length w) > m"
  shows "l = [w]"
proof -
  have "\<not> 2 \<le> length l"
  proof
    assume two: "2 \<le> length l"
    have "int (length (join '' '' l)) \<le> m"
      by (rule greedy_lines_fit [OF _ assms(1) two]) simp
    with length_le_join [OF assms(2), of "'' ''"] assms(3) show False by simp
  qed
  moreover have "l \<noteq> []" using assms(1) by (rule greedy_lines_nonempty)
  ultimately obtain v where "l = [v]" by (cases l; cases "tl l") auto
  with assms(2) show ?thesis by simp
qed

lemma unwrap_lines:
  assumes ok: "\<forall>l\<in>set ls. l \<noteq> [] \<and>
                 (\<forall>w\<in>set l. w \<noteq> [] \<and> (\<forall>c\<in>set w. \<not> isspace c) \<and> \<not> sublist ''<br>'' w)"
  shows "unwrap_words (join ''<br>'' (map (join '' '') ls)) = concat ls"
proof (cases "ls = []")
  case True
  then show ?thesis by (simp add: unwrap_words_def split_def)
next
  case False
  have "\<not> sublist ''<br>'' (join '' '' l)" if "l \<in> set ls" for l
  proof (rule no_marker_join)
    from ok that show "\<forall>w\<in>set l. \<not> sublist ''<br>'' w" by blast
  qed
  then have "\<forall>l\<in>set (map (join '' '') ls). \<not> sublist ''<br>'' l"
    by simp
  moreover have "map (join '' '') ls \<noteq> []" using False by simp
  ultimately have "split_br [] (join ''<br>'' (map (join '' '') ls)) = map (join '' '') ls"
    using split_br_join [of "map (join '' '') ls"] by blast
  moreover have "map (\<lambda>l. split (join '' '' l)) ls = ls"
  proof (rule map_idI)
    fix l assume "l \<in> set ls"
    with ok show "split (join '' '' l) = l" by (intro split_join) auto
  qed
  ultimately show ?thesis by (simp add: unwrap_words_def comp_def)
qed

text \<open>
  C6. \<open>wrap_text\<close> returns the text unchanged when its length is at most the threshold;
  otherwise the result is the whitespace-separated words of the text, packed greedily
  into lines (a word opens a new line when the current line with it added would exceed
  the threshold), the words of a line joined by a blank and the lines by \<open><br>\<close>. The
  lines hold all the words in their order, none is empty, and a line of two or more words
  is never longer than the threshold.
\<close>

theorem wrap_text_greedy:
  "wrap_text text m =
     (if int (length text) \<le> m then text
      else join ''<br>'' (map (join '' '') (greedy_lines m [] (split text))))
   \<and> concat (greedy_lines m [] (split text)) = split text
   \<and> (\<forall>l\<in>set (greedy_lines m [] (split text)).
         l \<noteq> [] \<and> (2 \<le> length l \<longrightarrow> int (length (join '' '' l)) \<le> m))"
proof -
  have "int (length (join '' '' l)) \<le> m"
    if "l \<in> set (greedy_lines m [] (split text))" and "2 \<le> length l" for l
    by (rule greedy_lines_fit [OF _ that]) simp
  then show ?thesis
    by (auto simp: wrap_text_lines concat_greedy_lines greedy_lines_nonempty
          simp del: One_nat_def)
qed

theorem wrap_text_greedy_witness:
  "wrap_text ''uno dos tres'' 7 = ''uno dos<br>tres''
   \<and> wrap_text ''uno dos'' 7 = ''uno dos''
   \<and> greedy_lines 7 [] (split ''uno dos tres'') = [[''uno'', ''dos''], [''tres'']]"
  using wrap_text_greedy [of "''uno dos tres''" 7] wrap_text_greedy [of "''uno dos''" 7]
  by (simp add: split_def isspace_def)

text \<open>
  C10, as amended. For a text that does not contain the marker \<open><br>\<close>, cutting the
  result of \<open>wrap_text\<close> at the marker and then at whitespace gives the
  whitespace-separated words of the text, in order. When the text is longer than the
  threshold, every line consists of whole words, and a word longer than the threshold
  is alone on its line.
\<close>

theorem wrap_text_words:
  assumes "\<not> sublist ''<br>'' text"
  shows "unwrap_words (wrap_text text m) = split text
         \<and> (m < int (length text) \<longrightarrow>
              wrap_text text m = join ''<br>'' (map (join '' '') (greedy_lines m [] (split text)))
              \<and> concat (greedy_lines m [] (split text)) = split text
              \<and> (\<forall>l\<in>set (greedy_lines m [] (split text)).
                    l \<noteq> [] \<and> (\<forall>w\<in>set l. m < int (length w) \<longrightarrow> l = [w])))"
proof (cases "int (length text) \<le> m")
  case True
  then show ?thesis using assms
    by (simp add: wrap_text_lines unwrap_words_def split_br_no_marker)
next
  case False
  let ?ls = "greedy_lines m [] (split text)"
  have cc: "concat ?ls = split text" by (simp add: concat_greedy_lines)
  have words: "w \<noteq> [] \<and> (\<forall>c\<in>set w. \<not> isspace c) \<and> \<not> sublist ''<br>'' w"
    if "w \<in> set (split text)" for w
  proof -
    from split_words [OF that] have "w \<noteq> []" "\<forall>c\<in>set w. \<not> isspace c" "sublist w text"
      by auto
    moreover have "\<not> sublist ''<br>'' w"
      using assms \<open>sublist w text\<close> sublist_order.order.trans by blast
    ultimately show ?thesis by simp
  qed
  have "\<forall>l\<in>set ?ls. l \<noteq> [] \<and>
          (\<forall>w\<in>set l. w \<noteq> [] \<and> (\<forall>c\<in>set w. \<not> isspace c) \<and> \<not> sublist ''<br>'' w)"
  proof
    fix l assume l: "l \<in> set ?ls"
    then have "set l \<subseteq> set (concat ?ls)" by auto
    with cc words greedy_lines_nonempty [OF l]
    show "l \<noteq> [] \<and>
          (\<forall>w\<in>set l. w \<noteq> [] \<and> (\<forall>c\<in>set w. \<not> isspace c) \<and> \<not> sublist ''<br>'' w)"
      by auto
  qed
  then have "unwrap_words (join ''<br>'' (map (join '' '') ?ls)) = concat ?ls"
    by (rule unwrap_lines)
  with False cc show ?thesis
    by (auto simp: wrap_text_lines greedy_lines_nonempty greedy_lines_long_word)
qed

theorem wrap_text_words_witness:
  "\<not> sublist ''<br>'' ''de la sostenibilidad''
   \<and> wrap_text ''de la sostenibilidad'' 6 = ''de la<br>sostenibilidad''
   \<and> unwrap_words (wrap_text ''de la sostenibilidad'' 6) = [''de'', ''la'', ''sostenibilidad'']"
proof -
  have h: "\<not> sublist ''<br>'' ''de la sostenibilidad''"
    by code_simp
  have w: "wrap_text ''de la sostenibilidad'' 6 = ''de la<br>sostenibilidad''"
    by (simp add: split_def isspace_def wrap_text_def)
  have s: "split ''de la sostenibilidad'' = [''de'', ''la'', ''sostenibilidad'']"
    by (simp add: split_def isspace_def)
  from wrap_text_words [OF h, of 6] h w s show ?thesis by simp
qed

theorem wrap_text_words_counterexample:
  "wrap_text ''a<br>b'' 25 = ''a<br>b''
   \<and> unwrap_words (wrap_text ''a<br>b'' 25) = [''a'', ''b'']
   \<and> split ''a<br>b'' = [''a<br>b'']"
  by (simp add: split_def isspace_def wrap_text_def unwrap_words_def)

subsection \<open>Loading\<close>

lemma isin_sentinels:
  "isin c sentinels \<longleftrightarrow>
     c \<in> {Some ''0'', Some ''No'', Some ''No informa'', Some ''SI'', Some ''Si''}"
  by (cases c) (auto simp: isin_def sentinels_def)

lemma count_list_filter:
  "count_list (filter P xs) x = (if P x then count_list xs x else 0)"
  by (induction xs) auto

text \<open>
  C3, as amended. When the sector column is read as text, that is when one of its cells
  holds a text that is no numeral, the loader of GenerateCharts.py removes exactly the
  rows whose sector is one of the five sentinel values: no such row is in the loaded
  table and every other row is kept as often as it occurs and in its order. When every
  non-empty sector cell is a numeral the column is read as numbers, the five texts
  match nothing and the loader keeps every row, the ones with sector 0 included. In
  both cases the loaded table is the one the chart blocks receive. The loader of
  index.py applies no filter: \<open>setup_environment\<close> returns the table as it was read.
\<close>

theorem load_raw_data_sentinels:
  "(sector_read_as_text numeric csv
      \<longleftrightarrow> (\<exists>r\<in>set csv. \<exists>s. macrosector r = Some s \<and> \<not> numeric s))
   \<and> (sector_read_as_text numeric csv \<longrightarrow>
      (\<forall>r\<in>set (load_raw_data numeric csv). macrosector r \<notin> {Some ''0'', Some ''No'', Some ''No informa'', Some ''SI'', Some ''Si''})
      \<and> (\<forall>r. macrosector r \<notin> {Some ''0'', Some ''No'', Some ''No informa'', Some ''SI'', Some ''Si''}
             \<longrightarrow> count_list (load_raw_data numeric csv) r = count_list csv r))
   \<and> (\<not> sector_read_as_text numeric csv \<longrightarrow> load_raw_data numeric csv = csv)
   \<and> subseq (load_raw_data numeric csv) csv
   \<and> (csv_file fs = Some csv \<and> brand_file fs = Some b \<longrightarrow>
         generate_charts numeric charts fs = charts (load_raw_data numeric csv) b
         \<and> snd (setup_environment fs w) = Inr (Some (csv, b)))"
proof -
  have "sector_read_as_text numeric csv
      \<longleftrightarrow> (\<exists>r\<in>set csv. \<exists>s. macrosector r = Some s \<and> \<not> numeric s)"
    by (auto simp: sector_read_as_text_def split: option.splits)
  moreover have "sector_read_as_text numeric csv \<longrightarrow>
      (\<forall>r\<in>set (load_raw_data numeric csv). macrosector r \<notin> {Some ''0'', Some ''No'', Some ''No informa'', Some ''SI'', Some ''Si''})"
    using isin_sentinels by (simp add: load_raw_data_def)
  moreover have "sector_read_as_text numeric csv \<longrightarrow>
      (\<forall>r. macrosector r \<notin> {Some ''0'', Some ''No'', Some ''No informa'', Some ''SI'', Some ''Si''}
             \<longrightarrow> count_list (load_raw_data numeric csv) r = count_list csv r)"
    using isin_sentinels by (simp add: load_raw_data_def count_list_filter)
  moreover have "\<not> sector_read_as_text numeric csv \<longrightarrow> load_raw_data numeric csv = csv"
    by (simp add: load_raw_data_def)
  moreover have "subseq (load_raw_data numeric csv) csv"
    by (simp add: load_raw_data_def)
  moreover have "csv_file fs = Some csv \<and> brand_file fs = Some b \<longrightarrow>
         generate_charts numeric charts fs = charts (load_raw_data numeric csv) b
         \<and> snd (setup_environment fs w) = Inr (Some (csv, b))"
    by (simp add: generate_charts_def setup_environment_def open_brand_def read_csv_def Let_def)
  ultimately show ?thesis by blast
qed

theorem load_raw_data_sentinels_witness:
  "sector_read_as_text (List.member [''0'', ''1''])
     [\<lparr> razon_social = Some ''Alfa'', macrosector = Some ''No informa'', bloque = Some ''B1'',
        nombre_pilar = Some ''P1'', variable = Some ''V1'', valoracionPonderada = Num 2,
        ingresos_operacionales = Num 10, ano_de_fundacion = Num 1990 \<rparr>,
      \<lparr> razon_social = Some ''Beta'', macrosector = Some ''Servicios'', bloque = Some ''B1'',
        nombre_pilar = Some ''P1'', variable = Some ''V1'', valoracionPonderada = Num 3,
        ingresos_operacionales = Num 20, ano_de_fundacion = Num 2001 \<rparr>]
   \<and> load_raw_data (List.member [''0'', ''1''])
     [\<lparr> razon_social = Some ''Alfa'', macrosector = Some ''No informa'', bloque = Some ''B1'',
        nombre_pilar = Some ''P1'', variable = Some ''V1'', valoracionPonderada = Num 2,
        ingresos_operacionales = Num 10, ano_de_fundacion = Num 1990 \<rparr>,
      \<lparr> razon_social = Some ''Beta'', macrosector = Some ''Servicios'', bloque = Some ''B1'',
        nombre_pilar = Some ''P1'', variable = Some ''V1'', valoracionPonderada = Num 3,
        ingresos_operacionales = Num 20, ano_de_fundacion = Num 2001 \<rparr>]
   = [\<lparr> razon_social = Some ''Beta'', macrosector = Some ''Servicios'', bloque = Some ''B1'',
        nombre_pilar = Some ''P1'', variable = Some ''V1'', valoracionPonderada = Num 3,
        ingresos_operacionales = Num 20, ano_de_fundacion = Num 2001 \<rparr>]
   \<and> \<not> sector_read_as_text (List.member [''0'', ''1''])
     [\<lparr> razon_social = Some ''Alfa'', macrosector = Some ''0'', bloque = Some ''B1'',
        nombre_pilar = Some ''P1'', variable = Some ''V1'', valoracionPonderada = Num 2,
        ingresos_operacionales = Num 10, ano_de_fundacion = Num 1990 \<rparr>,
      \<lparr> razon_social = Some ''Beta'', macrosector = Some ''1'', bloque = Some ''B1'',
        nombre_pilar = Some ''P1'', variable = Some ''V1'', valoracionPonderada = Num 3,
        ingresos_operacionales = Num 20, ano_de_fundacion = Num 2001 \<rparr>]
   \<and> load_raw_data (List.member [''0'', ''1''])
     [\<lparr> razon_social = Some ''Alfa'', macrosector = Some ''0'', bloque = Some ''B1'',
        nombre_pilar = Some ''P1'', variable = Some ''V1'', valoracionPonderada = Num 2,
        ingresos_operacionales = Num 10, ano_de_fundacion = Num 1990 \<rparr>,
      \<lparr> razon_social = Some ''Beta'', macrosector = Some ''1'', bloque = Some ''B1'',
        nombre_pilar = Some ''P1'', variable = Some ''V1'', valoracionPonderada = Num 3,
        ingresos_operacionales = Num 20, ano_de_fundacion = Num 2001 \<rparr>]
   = [\<lparr> razon_social = Some ''Alfa'', macrosector = Some ''0'', bloque = Some ''B1'',
        nombre_pilar = Some ''P1'', variable = Some ''V1'', valoracionPonderada = Num 2,
        ingresos_operacionales = Num 10, ano_de_fundacion = Num 1990 \<rparr>,
      \<lparr> razon_social = Some ''Beta'', macrosector = Some ''1'', bloque = Some ''B1'',
        nombre_pilar = Some ''P1'', variable = Some ''V1'', valoracionPonderada = Num 3,
        ingresos_operacionales = Num 20, ano_de_fundacion = Num 2001 \<rparr>]
   \<and> generate_charts (List.member [''0'', ''1'']) (\<lambda>df b. (map (\<lambda>r. the (razon_social r)) df, None))
       \<lparr> csv_file = Some
          [\<lparr> razon_social = Some ''Alfa'', macrosector = Some ''No informa'', bloque = Some ''B1'',
        nombre_pilar = Some ''P1'', variable = Some ''V1'', valoracionPonderada = Num 2,
        ingresos_operacionales = Num 10, ano_de_fundacion = Num 1990 \<rparr>,
           \<lparr> razon_social = Some ''Beta'', macrosector = Some ''Servicios'', bloque = Some ''B1'',
        nombre_pilar = Some ''P1'', variable = Some ''V1'', valoracionPonderada = Num 3,
        ingresos_operacionales = Num 20, ano_de_fundacion = Num 2001 \<rparr>],
         brand_file = Some () \<rparr>
     = ([''Beta''], None)"
  using load_raw_data_sentinels
    [of "(List.member [''0'', ''1''])"
       "[\<lparr> razon_social = Some ''Alfa'', macrosector = Some ''No informa'', bloque = Some ''B1'',
        nombre_pilar = Some ''P1'', variable = Some ''V1'', valoracionPonderada = Num 2,
        ingresos_operacionales = Num 10, ano_de_fundacion = Num 1990 \<rparr>,
        \<lparr> razon_social = Some ''Beta'', macrosector = Some ''Servicios'', bloque = Some ''B1'',
        nombre_pilar = Some ''P1'', variable = Some ''V1'', valoracionPonderada = Num 3,
        ingresos_operacionales = Num 20, ano_de_fundacion = Num 2001 \<rparr>]"
       "\<lparr> csv_file = Some
          [\<lparr> razon_social = Some ''Alfa'', macrosector = Some ''No informa'', bloque = Some ''B1'',
        nombre_pilar = Some ''P1'', variable = Some ''V1'', valoracionPonderada = Num 2,
        ingresos_operacionales = Num 10, ano_de_fundacion = Num 1990 \<rparr>,
           \<lparr> razon_social = Some ''Beta'', macrosector = Some ''Servicios'', bloque = Some ''B1'',
        nombre_pilar = Some ''P1'', variable = Some ''V1'', valoracionPonderada = Num 3,
        ingresos_operacionales = Num 20, ano_de_fundacion = Num 2001 \<rparr>],
         brand_file = Some () \<rparr>"
       "()" "\<lambda>df b. (map (\<lambda>r. the (razon_social r)) df, None)"]
    load_raw_data_sentinels
    [of "(List.member [''0'', ''1''])"
       "[\<lparr> razon_social = Some ''Alfa'', macrosector = Some ''0'', bloque = Some ''B1'',
        nombre_pilar = Some ''P1'', variable = Some ''V1'', valoracionPonderada = Num 2,
        ingresos_operacionales = Num 10, ano_de_fundacion = Num 1990 \<rparr>,
        \<lparr> razon_social = Some ''Beta'', macrosector = Some ''1'', bloque = Some ''B1'',
        nombre_pilar = Some ''P1'', variable = Some ''V1'', valoracionPonderada = Num 3,
        ingresos_operacionales = Num 20, ano_de_fundacion = Num 2001 \<rparr>]"]
  by (simp add: load_raw_data_def sector_read_as_text_def isin_def sentinels_def)

theorem loader_sentinel_counterexample:
  "isin (Some ''No informa'') sentinels
   \<and> setup_environment
       \<lparr> csv_file = Some
          [\<lparr> razon_social = Some ''Alfa'', macrosector = Some ''No informa'', bloque = Some ''B1'',
        nombre_pilar = Some ''P1'', variable = Some ''V1'', valoracionPonderada = Num 2,
        ingresos_operacionales = Num 10, ano_de_fundacion = Num 1990 \<rparr>],
         brand_file = Some () \<rparr>
       \<lparr> charts_dir = True, stdout = [], written = [] \<rparr>
     = (\<lparr> charts_dir = True, stdout = [Configured], written = [] \<rparr>,
        Inr (Some
          ([\<lparr> razon_social = Some ''Alfa'', macrosector = Some ''No informa'', bloque = Some ''B1'',
        nombre_pilar = Some ''P1'', variable = Some ''V1'', valoracionPonderada = Num 2,
        ingresos_operacionales = Num 10, ano_de_fundacion = Num 1990 \<rparr>], ())))
   \<and> isin (Some ''0'') sentinels
   \<and> load_raw_data (List.member [''0'', ''1''])
        [\<lparr> razon_social = Some ''Alfa'', macrosector = Some ''0'', bloque = Some ''B1'',
        nombre_pilar = Some ''P1'', variable = Some ''V1'', valoracionPonderada = Num 2,
        ingresos_operacionales = Num 10, ano_de_fundacion = Num 1990 \<rparr>,
         \<lparr> razon_social = Some ''Beta'', macrosector = Some ''1'', bloque = Some ''B1'',
        nombre_pilar = Some ''P1'', variable = Some ''V1'', valoracionPonderada = Num 3,
        ingresos_operacionales = Num 20, ano_de_fundacion = Num 2001 \<rparr>]
      = [\<lparr> razon_social = Some ''Alfa'', macrosector = Some ''0'', bloque = Some ''B1'',
        nombre_pilar = Some ''P1'', variable = Some ''V1'', valoracionPonderada = Num 2,
        ingresos_operacionales = Num 10, ano_de_fundacion = Num 1990 \<rparr>,
         \<lparr> razon_social = Some ''Beta'', macrosector = Some ''1'', bloque = Some ''B1'',
        nombre_pilar = Some ''P1'', variable = Some ''V1'', valoracionPonderada = Num 3,
        ingresos_operacionales = Num 20, ano_de_fundacion = Num 2001 \<rparr>]"
  by (simp add: setup_environment_def read_csv_def open_brand_def print_def isin_def
      sentinels_def load_raw_data_def sector_read_as_text_def)

subsection \<open>Missing input files\<close>

text \<open>
  C4. When the dataset or the brand file is absent, \<open>main\<close> of index.py prints the name
  of the missing file (the dataset's when both are absent, since it is read first), calls
  no chart procedure, writes no chart file and returns normally; GenerateCharts.py ends
  with an uncaught \<open>FileNotFoundError\<close> (for the brand file when both are absent, since
  it is opened first) before any chart block has run, so no chart file is written.
\<close>

theorem missing_input_no_chart:
  assumes "csv_file fs = None \<or> brand_file fs = None"
  shows "main generate_all fs w =
           (print (Missing_file (if csv_file fs = None then ''empresasEafit.csv''
                                 else ''eafitBrand.json''))
              (if charts_dir w then w else print Dir_created (w \<lparr> charts_dir := True \<rparr>)),
            None)
         \<and> written (fst (main generate_all fs w)) = written w
         \<and> generate_charts numeric charts fs =
             ([], Some (FileNotFoundError (if brand_file fs = None then ''eafitBrand.json''
                                           else ''empresasEafit.csv'')))"
  using assms
  by (cases "csv_file fs"; cases "brand_file fs")
     (auto simp: main_def setup_environment_def read_csv_def open_brand_def print_def
        generate_charts_def Let_def)

theorem missing_input_no_chart_witness:
  "main (\<lambda>df w. (w \<lparr> written := written w @ [''01_radar_macroeconomic.html''] \<rparr>, None))
     \<lparr> csv_file = None, brand_file = Some () \<rparr>
     \<lparr> charts_dir = False, stdout = [], written = [] \<rparr>
   = (\<lparr> charts_dir = True, stdout = [Dir_created, Missing_file ''empresasEafit.csv''],
        written = [] \<rparr>, None)
   \<and> generate_charts (List.member [''0'', ''1'']) (\<lambda>df b. ([''01_radar_macroeconomic.html''], None))
       \<lparr> csv_file = None, brand_file = Some () \<rparr>
     = ([], Some (FileNotFoundError ''empresasEafit.csv''))"
  using missing_input_no_chart
    [of "\<lparr> csv_file = None, brand_file = Some () \<rparr>"
        "\<lambda>df w. (w \<lparr> written := written w @ [''01_radar_macroeconomic.html''] \<rparr>, None)"
        "\<lparr> charts_dir = False, stdout = [], written = [] \<rparr>"
        "List.member [''0'', ''1'']"
        "\<lambda>df b. ([''01_radar_macroeconomic.html''], None)"]
  by (simp add: print_def)

subsection \<open>First appearance\<close>

lemma set_uniq: "set (uniq seen xs) = set xs - seen"
  by (induction xs arbitrary: seen) auto

lemma distinct_uniq: "distinct (uniq seen xs)"
  by (induction xs arbitrary: seen) (auto simp: set_uniq)

lemma uniq_append: "uniq seen (xs @ ys) = uniq seen xs @ uniq (seen \<union> set xs) ys"
  by (induction xs arbitrary: seen) (auto simp: insert_absorb)

lemma set_pd_unique: "set (pd_unique xs) = set xs"
  by (simp add: pd_unique_def set_uniq)

lemma distinct_pd_unique: "distinct (pd_unique xs)"
  by (simp add: pd_unique_def distinct_uniq)

lemma pd_unique_first:
  assumes "x \<in> set xs"
  shows "card (set (takeWhile (\<lambda>y. y \<noteq> x) xs)) < length (pd_unique xs)
         \<and> pd_unique xs ! card (set (takeWhile (\<lambda>y. y \<noteq> x) xs)) = x"
proof -
  let ?ys = "takeWhile (\<lambda>y. y \<noteq> x) xs"
  let ?zs = "dropWhile (\<lambda>y. y \<noteq> x) xs"
  from assms have "?zs \<noteq> []" by auto
  then obtain zs where zs: "?zs = x # zs"
    using hd_dropWhile [of "\<lambda>y. y \<noteq> x" xs] by (cases ?zs) auto
  have "xs = ?ys @ x # zs" using takeWhile_dropWhile_id [of "\<lambda>y. y \<noteq> x" xs] zs by simp
  then have "pd_unique xs = uniq {} (?ys @ x # zs)" by (simp add: pd_unique_def)
  also have "\<dots> = uniq {} ?ys @ uniq (set ?ys) (x # zs)" by (simp add: uniq_append)
  also have "x \<notin> set ?ys" by (auto dest: set_takeWhileD)
  then have "uniq (set ?ys) (x # zs) = x # uniq (insert x (set ?ys)) zs" by simp
  finally have eq: "pd_unique xs = uniq {} ?ys @ x # uniq (insert x (set ?ys)) zs" .
  have len: "card (set ?ys) = length (uniq {} ?ys)"
    using distinct_card [OF distinct_uniq, of "{}" ?ys] by (simp add: set_uniq)
  have "length (uniq {} ?ys) < length (pd_unique xs)"
    by (simp only: eq length_append length_Cons)
  moreover have "pd_unique xs ! length (uniq {} ?ys) = x"
    by (simp only: eq nth_append_length)
  ultimately show ?thesis by (simp only: len)
qed

subsection \<open>The node ids\<close>

lemma fold_ids_other:
  "x \<notin> set xs \<Longrightarrow>
   fold (\<lambda>(i, node) m. m(node \<mapsto> i)) (enumerate n xs) m x = m x"
  by (induction xs arbitrary: n m) auto

lemma fold_ids_step:
  "fold (\<lambda>(i, node) m. m(node \<mapsto> i)) (enumerate n (x # xs)) m
     = fold (\<lambda>(i, node) m. m(node \<mapsto> i)) (enumerate (Suc n) xs) (m(x \<mapsto> n))"
  by simp

lemma fold_ids_nth:
  "distinct xs \<Longrightarrow> i < length xs \<Longrightarrow>
   fold (\<lambda>(i, node) m. m(node \<mapsto> i)) (enumerate n xs) m (xs ! i) = Some (n + i)"
proof (induction xs arbitrary: n m i)
  case Nil
  then show ?case by simp
next
  case (Cons x xs)
  show ?case
  proof (cases i)
    case 0
    have "x \<notin> set xs" using Cons.prems by simp
    then have "fold (\<lambda>(i, node) m. m(node \<mapsto> i)) (enumerate (Suc n) xs) (m(x \<mapsto> n)) x
            = (m(x \<mapsto> n)) x"
      by (rule fold_ids_other)
    then have "fold (\<lambda>(i, node) m. m(node \<mapsto> i)) (enumerate n (x # xs)) m x = Some n"
      unfolding fold_ids_step by (simp only: fun_upd_same)
    with 0 show ?thesis by (simp only: nth_Cons_0 Nat.add_0_right)
  next
    case (Suc j)
    have "fold (\<lambda>(i, node) m. m(node \<mapsto> i)) (enumerate (Suc n) xs) (m(x \<mapsto> n)) (xs ! j)
            = Some (Suc n + j)"
      by (rule Cons.IH) (use Cons.prems Suc in auto)
    then have "fold (\<lambda>(i, node) m. m(node \<mapsto> i)) (enumerate n (x # xs)) m (xs ! j)
            = Some (Suc n + j)"
      unfolding fold_ids_step .
    with Suc show ?thesis by (simp only: nth_Cons_Suc add_Suc_right add_Suc)
  qed
qed

lemma dom_fold_ids:
  "dom (fold (\<lambda>(i, node) m. m(node \<mapsto> i)) (enumerate n xs) m) = dom m \<union> set xs"
  by (induction xs arbitrary: n m) auto

lemma node_mapping_nth:
  "distinct nodes \<Longrightarrow> i < length nodes \<Longrightarrow> node_mapping nodes (nodes ! i) = Some i"
  using fold_ids_nth [of nodes i 0 Map.empty] by (simp add: node_mapping_def)

lemma dom_node_mapping: "dom (node_mapping nodes) = set nodes"
  by (simp add: node_mapping_def dom_fold_ids)

lemma node_mapping_inj:
  assumes "distinct nodes"
  shows "inj_on (node_mapping nodes) (set nodes)"
proof (rule inj_onI)
  fix x y assume "x \<in> set nodes" "y \<in> set nodes" "node_mapping nodes x = node_mapping nodes y"
  then obtain i j where "i < length nodes" "j < length nodes" "x = nodes ! i" "y = nodes ! j"
    "node_mapping nodes (nodes ! i) = node_mapping nodes (nodes ! j)"
    by (auto simp: in_set_conv_nth)
  with assms show "x = y" by (simp add: node_mapping_nth)
qed

lemma node_mapping_range:
  assumes "distinct nodes"
  shows "node_mapping nodes ` set nodes = Some ` {0..<length nodes}"
proof -
  have "set nodes = (\<lambda>i. nodes ! i) ` {0..<length nodes}"
    by (auto simp: in_set_conv_nth)
  then have "node_mapping nodes ` set nodes
               = (\<lambda>i. node_mapping nodes (nodes ! i)) ` {0..<length nodes}"
    by (simp add: image_image)
  also have "\<dots> = Some ` {0..<length nodes}"
    using assms by (intro image_cong) (auto simp: node_mapping_nth)
  finally show ?thesis .
qed

subsection \<open>The shared table after the coercions\<close>

lemma raw_data_read_Suc:
  "raw_data_read parse (Suc k) t = chart_effect parse (Suc k) (raw_data_read parse k t)"
  by (simp add: raw_data_read_def)

lemma raw_data_read_early: "k < 4 \<Longrightarrow> raw_data_read parse k t = t"
proof (induction k)
  case 0
  then show ?case by (simp add: raw_data_read_def)
next
  case (Suc k)
  then show ?case by (simp add: raw_data_read_Suc chart_effect_def)
qed

lemma raw_data_read_4: "raw_data_read parse 4 t = coerce_scores parse t"
proof -
  have "raw_data_read parse (Suc 3) t = chart_effect parse (Suc 3) (raw_data_read parse 3 t)"
    by (rule raw_data_read_Suc)
  then show ?thesis by (simp add: raw_data_read_early chart_effect_def eval_nat_numeral)
qed

lemma raw_data_read_late:
  "5 \<le> k \<Longrightarrow> raw_data_read parse k t = coerce_year parse (coerce_scores parse t)"
proof (induction k)
  case 0
  then show ?case by simp
next
  case (Suc k)
  show ?case
  proof (cases "k = 4")
    case True
    then have "raw_data_read parse (Suc k) t = chart_effect parse 5 (raw_data_read parse 4 t)"
      using raw_data_read_Suc [of parse 4 t] by simp
    then show ?thesis by (simp add: raw_data_read_4 chart_effect_def)
  next
    case False
    with Suc.prems have "5 \<le> k" by simp
    with Suc.IH show ?thesis by (simp add: raw_data_read_Suc chart_effect_def)
  qed
qed

lemma fillna0_to_numeric: "\<exists>x. fillna0 (to_numeric parse c) = Num x"
  by (cases c) (auto simp: fillna0_def to_numeric_def split: option.splits)


lemma coerce_scores_numeric:
  "r \<in> set (coerce_scores parse t) \<Longrightarrow>
   (\<exists>x. valoracionPonderada r = Num x) \<and> (\<exists>x. ingresos_operacionales r = Num x)"
  using fillna0_to_numeric by (auto simp: coerce_scores_def)

lemma coerce_year_scores:
  "r \<in> set (coerce_year parse t) \<Longrightarrow>
   \<exists>r'\<in>set t. valoracionPonderada r = valoracionPonderada r'
     \<and> ingresos_operacionales r = ingresos_operacionales r'"
  by (auto simp: coerce_year_def)

lemma raw_data_read_numeric:
  assumes "4 \<le> k" and "r \<in> set (raw_data_read parse k t)"
  shows "(\<exists>x. valoracionPonderada r = Num x) \<and> (\<exists>x. ingresos_operacionales r = Num x)"
proof (cases "k = 4")
  case True
  with assms(2) show ?thesis by (simp add: raw_data_read_4 coerce_scores_numeric)
next
  case False
  with assms have "r \<in> set (coerce_year parse (coerce_scores parse t))"
    by (simp add: raw_data_read_late)
  then obtain r' where "r' \<in> set (coerce_scores parse t)"
    "valoracionPonderada r = valoracionPonderada r'"
    "ingresos_operacionales r = ingresos_operacionales r'"
    using coerce_year_scores by blast
  then show ?thesis using coerce_scores_numeric [of r' parse t] by simp
qed

subsection \<open>Sums over a numeric column\<close>

lemma groupby_sum_numeric:
  assumes "\<forall>r\<in>set rows. \<not> is_text (col r)"
  shows "groupby_agg key col agg_sum rows =
           Inr (map (\<lambda>k. (k, Num (sum_list (nums (map col (group_rows key k rows))))))
                  (group_keys key rows))"
proof (rule groupby_agg_Inr)
  fix k
  have "\<forall>c\<in>set (map col (group_rows key k rows)). \<not> is_text c"
    using assms by (auto simp: group_rows_def)
  then show "agg_sum (map col (group_rows key k rows)) =
               Inr (Num (sum_list (nums (map col (group_rows key k rows)))))"
    by (rule agg_sum_no_text)
qed

lemma concat_flows_numeric:
  assumes "\<forall>r\<in>set rows. \<not> is_text (valoracionPonderada r)"
  shows "\<exists>fs. concat_flows rows = Inr fs \<and> (\<forall>f\<in>set fs. \<exists>x. flow_value f = Num x)"
  using assms
  by (auto simp: concat_flows_def flow1_def flow2_def groupby_sum_numeric to_flow_def)

lemma sankey_data_numeric:
  assumes "\<forall>r\<in>set rows. \<not> is_text (valoracionPonderada r)"
  shows "\<exists>fs. concat_flows rows = Inr fs
              \<and> sankey_data rows = Inr (filter (\<lambda>f. gt0 (flow_value f) = Inr True) fs)"
proof -
  from concat_flows_numeric [OF assms] obtain fs where
    fs: "concat_flows rows = Inr fs" and num: "\<forall>f\<in>set fs. \<exists>x. flow_value f = Num x"
    by blast
  have "select (\<lambda>f. gt0 (flow_value f)) fs
          = Inr (filter (\<lambda>f. gt0 (flow_value f) = Inr True) fs)"
  proof (rule select_Inr)
    fix f assume "f \<in> set fs"
    with num obtain x where "flow_value f = Num x" by blast
    then show "gt0 (flow_value f) = Inr (gt0 (flow_value f) = Inr True)" by simp
  qed
  with fs show ?thesis by (simp add: sankey_data_def)
qed

text \<open>
  C5, as amended. When chart 7 runs, the two flow aggregations are computed without
  error and the Sankey table holds exactly their rows of positive value. The node list
  built from the sources and targets of that table has no duplicate and holds exactly
  those labels; the id of the node at position \<open>i\<close> is \<open>i\<close>, so the ids are injective and
  are the numbers below the number of nodes; and the id of a label is the number of
  distinct labels before its first appearance among all sources followed by all
  targets. Every flow end gets the id of its label.
\<close>

theorem sankey_node_ids:
  "(\<exists>fs. concat_flows (raw_data_read parse 7 t) = Inr fs
        \<and> sankey_data (raw_data_read parse 7 t)
            = Inr (filter (\<lambda>f. gt0 (flow_value f) = Inr True) fs))
   \<and> distinct (unique_nodes sd)
   \<and> set (unique_nodes sd) = flow_source ` set sd \<union> flow_target ` set sd
   \<and> (\<forall>i<length (unique_nodes sd).
         node_mapping (unique_nodes sd) (unique_nodes sd ! i) = Some i)
   \<and> inj_on (node_mapping (unique_nodes sd)) (set (unique_nodes sd))
   \<and> node_mapping (unique_nodes sd) ` set (unique_nodes sd)
       = Some ` {0..<length (unique_nodes sd)}
   \<and> (\<forall>x\<in>flow_source ` set sd \<union> flow_target ` set sd.
         node_mapping (unique_nodes sd) x =
           Some (card (set (takeWhile (\<lambda>y. y \<noteq> x)
                              (map flow_source sd @ map flow_target sd)))))
   \<and> source_id sd = map (\<lambda>f. node_mapping (unique_nodes sd) (flow_source f)) sd
   \<and> target_id sd = map (\<lambda>f. node_mapping (unique_nodes sd) (flow_target f)) sd"
proof -
  let ?nodes = "unique_nodes sd"
  let ?labels = "map flow_source sd @ map flow_target sd"
  have "\<forall>r\<in>set (raw_data_read parse 7 t). \<not> is_text (valoracionPonderada r)"
    using raw_data_read_numeric [of 7 _ parse t] by fastforce
  then have pipeline: "\<exists>fs. concat_flows (raw_data_read parse 7 t) = Inr fs
        \<and> sankey_data (raw_data_read parse 7 t)
            = Inr (filter (\<lambda>f. gt0 (flow_value f) = Inr True) fs)"
    by (rule sankey_data_numeric)
  have d: "distinct ?nodes" by (simp add: unique_nodes_def distinct_pd_unique)
  have s: "set ?nodes = flow_source ` set sd \<union> flow_target ` set sd"
    by (simp add: unique_nodes_def set_pd_unique)
  have ids: "\<forall>i<length ?nodes. node_mapping ?nodes (?nodes ! i) = Some i"
    using d by (simp add: node_mapping_nth)
  have first: "node_mapping ?nodes x = Some (card (set (takeWhile (\<lambda>y. y \<noteq> x) ?labels)))"
    if "x \<in> flow_source ` set sd \<union> flow_target ` set sd" for x
  proof -
    from that have "x \<in> set ?labels" by auto
    from pd_unique_first [OF this] d show ?thesis
      by (metis node_mapping_nth unique_nodes_def)
  qed
  show ?thesis
    using pipeline d s ids first node_mapping_inj [OF d] node_mapping_range [OF d]
    by (simp add: source_id_def target_id_def)
qed

lemma rd7: "raw_data_read parse 7 t = coerce_year parse (coerce_scores parse t)"
  by (simp add: raw_data_read_late)

theorem sankey_node_ids_witness:
  "unique_nodes
     [\<lparr> flow_source = ''Ambiental'', flow_target = ''Agua'', flow_value = Num 5 \<rparr>,
      \<lparr> flow_source = ''Agua'', flow_target = ''Servicios'', flow_value = Num 5 \<rparr>]
     = [''Ambiental'', ''Agua'', ''Servicios'']
   \<and> node_mapping [''Ambiental'', ''Agua'', ''Servicios''] ''Agua'' = Some 1
   \<and> source_id
       [\<lparr> flow_source = ''Ambiental'', flow_target = ''Agua'', flow_value = Num 5 \<rparr>,
        \<lparr> flow_source = ''Agua'', flow_target = ''Servicios'', flow_value = Num 5 \<rparr>]
       = [Some 0, Some 1]
   \<and> target_id
       [\<lparr> flow_source = ''Ambiental'', flow_target = ''Agua'', flow_value = Num 5 \<rparr>,
        \<lparr> flow_source = ''Agua'', flow_target = ''Servicios'', flow_value = Num 5 \<rparr>]
       = [Some 1, Some 2]"
proof -
  let ?sd = "[\<lparr> flow_source = ''Ambiental'', flow_target = ''Agua'', flow_value = Num 5 \<rparr>,
      \<lparr> flow_source = ''Agua'', flow_target = ''Servicios'', flow_value = Num 5 \<rparr>]"
  have nodes: "unique_nodes ?sd = [''Ambiental'', ''Agua'', ''Servicios'']"
    by (simp add: unique_nodes_def pd_unique_def)
  from sankey_node_ids [of "map_of []" "[]" ?sd]
  have ids: "\<forall>i<length (unique_nodes ?sd).
               node_mapping (unique_nodes ?sd) (unique_nodes ?sd ! i) = Some i"
    and src: "source_id ?sd = map (\<lambda>f. node_mapping (unique_nodes ?sd) (flow_source f)) ?sd"
    and tgt: "target_id ?sd = map (\<lambda>f. node_mapping (unique_nodes ?sd) (flow_target f)) ?sd"
    by blast+
  from ids have i0: "node_mapping [''Ambiental'', ''Agua'', ''Servicios''] ''Ambiental'' = Some 0"
    and i1: "node_mapping [''Ambiental'', ''Agua'', ''Servicios''] ''Agua'' = Some 1"
    and i2: "node_mapping [''Ambiental'', ''Agua'', ''Servicios''] ''Servicios'' = Some 2"
    unfolding nodes by (auto simp: All_less_Suc eval_nat_numeral)
  show ?thesis using nodes i0 i1 i2 src tgt by simp
qed

theorem sankey_nodes_counterexample:
  "concat_flows (raw_data_read (map_of []) 7
     [\<lparr> razon_social = Some ''Alfa'', macrosector = Some ''Servicios'',
        bloque = Some ''Ambiental'', nombre_pilar = Some ''Agua'', variable = Some ''V1'',
        valoracionPonderada = Num 5, ingresos_operacionales = Num 10,
        ano_de_fundacion = Num 1990 \<rparr>,
      \<lparr> razon_social = Some ''Alfa'', macrosector = Some ''Servicios'',
        bloque = Some ''Ambiental'', nombre_pilar = Some ''Clima'', variable = Some ''V2'',
        valoracionPonderada = Num 0, ingresos_operacionales = Num 10,
        ano_de_fundacion = Num 1990 \<rparr>])
   = Inr [\<lparr> flow_source = ''Ambiental'', flow_target = ''Agua'', flow_value = Num 5 \<rparr>,
          \<lparr> flow_source = ''Ambiental'', flow_target = ''Clima'', flow_value = Num 0 \<rparr>,
          \<lparr> flow_source = ''Agua'', flow_target = ''Servicios'', flow_value = Num 5 \<rparr>,
          \<lparr> flow_source = ''Clima'', flow_target = ''Servicios'', flow_value = Num 0 \<rparr>]
   \<and> sankey_data (raw_data_read (map_of []) 7
     [\<lparr> razon_social = Some ''Alfa'', macrosector = Some ''Servicios'',
        bloque = Some ''Ambiental'', nombre_pilar = Some ''Agua'', variable = Some ''V1'',
        valoracionPonderada = Num 5, ingresos_operacionales = Num 10,
        ano_de_fundacion = Num 1990 \<rparr>,
      \<lparr> razon_social = Some ''Alfa'', macrosector = Some ''Servicios'',
        bloque = Some ''Ambiental'', nombre_pilar = Some ''Clima'', variable = Some ''V2'',
        valoracionPonderada = Num 0, ingresos_operacionales = Num 10,
        ano_de_fundacion = Num 1990 \<rparr>])
   = Inr [\<lparr> flow_source = ''Ambiental'', flow_target = ''Agua'', flow_value = Num 5 \<rparr>,
          \<lparr> flow_source = ''Agua'', flow_target = ''Servicios'', flow_value = Num 5 \<rparr>]
   \<and> unique_nodes
        [\<lparr> flow_source = ''Ambiental'', flow_target = ''Agua'', flow_value = Num 5 \<rparr>,
         \<lparr> flow_source = ''Agua'', flow_target = ''Servicios'', flow_value = Num 5 \<rparr>]
     = [''Ambiental'', ''Agua'', ''Servicios'']
   \<and> ''Clima'' \<notin> set [''Ambiental'', ''Agua'', ''Servicios'']"
  by (simp add: rd7 coerce_year_def coerce_scores_def to_numeric_def fillna0_def
      sankey_data_def concat_flows_def flow1_def flow2_def groupby_agg_def group_keys_def
      group_rows_def key2_def agg_sum_def to_flow_def select_def unique_nodes_def
      pd_unique_def)

subsection \<open>Grouping a table whose keys were not touched\<close>

lemma group_keys_map:
  "(\<And>r. key (f r) = key r) \<Longrightarrow> group_keys key (map f rows) = group_keys key rows"
  by (simp add: group_keys_def List.map_filter_def comp_def filter_map)

lemma group_rows_map:
  "(\<And>r. key (f r) = key r) \<Longrightarrow>
   group_rows key k (map f rows) = map f (group_rows key k rows)"
  by (simp add: group_rows_def filter_map comp_def)


lemma agg_first_Num:
  "g \<noteq> [] \<Longrightarrow> \<forall>r\<in>set g. \<exists>x. col r = Num x \<Longrightarrow> agg_first (map col g) = col (hd g)"
  by (cases g) (auto simp: agg_first_def)



subsection \<open>Sums in the arithmetic of the column\<close>

lemma agg_sum_in_no_text:
  assumes "\<forall>c\<in>set cells. \<not> is_text c"
  shows "agg_sum_in A cells
           = Inr (Num (if filter (\<lambda>c. c \<noteq> Null) cells = [] then 0 else asum A (nums cells)))"
  using assms by (auto simp: agg_sum_in_def split: list.splits)

lemma agg_sum_in_Num:
  assumes "cells \<noteq> []" and "\<forall>c\<in>set cells. \<exists>x. c = Num x"
  shows "agg_sum_in A cells = Inr (Num (asum A (nums cells)))"
proof -
  from assms(2) have nt: "\<forall>c\<in>set cells. \<not> is_text c" by auto
  from assms have "filter (\<lambda>c. c \<noteq> Null) cells \<noteq> []"
    by (cases cells) auto
  with agg_sum_in_no_text [OF nt] show ?thesis by simp
qed

subsection \<open>The per-company tables\<close>

lemma gt0_fillna0:
  "gt0 (fillna0 (to_numeric parse c)) = Inr (\<exists>x. to_numeric parse c = Num x \<and> 0 < x)"
  by (cases c) (auto simp: fillna0_def to_numeric_def split: option.splits)

lemma gt0_Num: "gt0 (Num x) = Inr (0 < x)"
  by simp

lemma group_keys_coerce_scores:
  "group_keys razon_social (coerce_scores parse t) = group_keys razon_social t"
  unfolding coerce_scores_def by (rule group_keys_map) simp

lemma group_rows_coerce_scores:
  "group_rows razon_social k (coerce_scores parse t)
     = coerce_scores parse (group_rows razon_social k t)"
  unfolding coerce_scores_def by (rule group_rows_map) simp

lemma company_agg_coerced:
  "company_agg A (coerce_scores parse t) =
     Inr (map (\<lambda>k. \<lparr> c_razon_social = k,
                    puntaje_total =
                      Num (asum A (nums (map (\<lambda>r. fillna0 (to_numeric parse
                                                     (valoracionPonderada r)))
                                           (group_rows razon_social k t)))),
                    ingresos =
                      fillna0 (to_numeric parse
                        (ingresos_operacionales (hd (group_rows razon_social k t)))),
                    c_macrosector =
                      agg_first_text (map macrosector (group_rows razon_social k t)) \<rparr>)
            (group_keys razon_social t))"
proof -
  have one: "(let g = group_rows razon_social k (coerce_scores parse t) in
                case agg_sum_in A (map valoracionPonderada g) of
                  Inl e \<Rightarrow> Inl e
                | Inr tot \<Rightarrow>
                    Inr \<lparr> c_razon_social = k, puntaje_total = tot,
                          ingresos = agg_first (map ingresos_operacionales g),
                          c_macrosector = agg_first_text (map macrosector g) \<rparr>)
        = Inr \<lparr> c_razon_social = k,
                puntaje_total =
                  Num (asum A (nums (map (\<lambda>r. fillna0 (to_numeric parse
                                                 (valoracionPonderada r)))
                                       (group_rows razon_social k t)))),
                ingresos =
                  fillna0 (to_numeric parse
                    (ingresos_operacionales (hd (group_rows razon_social k t)))),
                c_macrosector =
                  agg_first_text (map macrosector (group_rows razon_social k t)) \<rparr>"
    if k: "k \<in> set (group_keys razon_social t)" for k
  proof -
    let ?g = "group_rows razon_social k t"
    let ?g' = "coerce_scores parse ?g"
    have ne: "?g \<noteq> []" using k by (rule group_rows_nonempty)
    have mv: "map valoracionPonderada ?g'
                 = map (\<lambda>r. fillna0 (to_numeric parse (valoracionPonderada r))) ?g"
      by (simp add: coerce_scores_def)
    have "agg_sum_in A (map valoracionPonderada ?g')
            = Inr (Num (asum A (nums (map valoracionPonderada ?g'))))"
    proof (rule agg_sum_in_Num)
      show "map valoracionPonderada ?g' \<noteq> []" using ne by (simp add: coerce_scores_def)
      show "\<forall>c\<in>set (map valoracionPonderada ?g'). \<exists>x. c = Num x"
        using coerce_scores_numeric [of _ parse ?g] by fastforce
    qed
    then have s: "agg_sum_in A (map valoracionPonderada ?g')
        = Inr (Num (asum A (nums (map (\<lambda>r. fillna0 (to_numeric parse (valoracionPonderada r)))
                                     ?g))))"
      by (simp only: mv)
    have "agg_first (map ingresos_operacionales ?g') = ingresos_operacionales (hd ?g')"
    proof (rule agg_first_Num)
      show "?g' \<noteq> []" using ne by (simp add: coerce_scores_def)
      show "\<forall>r\<in>set ?g'. \<exists>x. ingresos_operacionales r = Num x"
        using coerce_scores_numeric [of _ parse ?g] by blast
    qed
    also have "hd ?g' = (hd ?g) \<lparr> valoracionPonderada :=
                            fillna0 (to_numeric parse (valoracionPonderada (hd ?g))),
                          ingresos_operacionales :=
                            fillna0 (to_numeric parse (ingresos_operacionales (hd ?g))) \<rparr>"
      using ne by (simp add: coerce_scores_def hd_map)
    finally have i: "agg_first (map ingresos_operacionales ?g')
        = fillna0 (to_numeric parse (ingresos_operacionales (hd ?g)))"
      by simp
    have m: "map macrosector ?g' = map macrosector ?g"
      by (simp add: coerce_scores_def)
    show ?thesis
      by (simp only: group_rows_coerce_scores Let_def s i m sum.case)
  qed
  show ?thesis
    unfolding company_agg_def group_keys_coerce_scores
    by (rule collect_Inr) (rule one)
qed

lemma select_gt0_Inr:
  assumes "\<forall>c\<in>set cs. \<not> is_text (col c)"
  shows "select (\<lambda>c. gt0 (col c)) cs = Inr (filter (\<lambda>c. \<exists>x. col c = Num x \<and> 0 < x) cs)"
proof (rule select_Inr)
  fix c assume "c \<in> set cs"
  with assms have "\<not> is_text (col c)" by blast
  then show "gt0 (col c) = Inr (\<exists>x. col c = Num x \<and> 0 < x)" by (cases "col c") auto
qed

lemma select_gt0_text:
  assumes "\<exists>c\<in>set cs. is_text (col c)"
  shows "select (\<lambda>c. gt0 (col c)) cs = Inl TypeError"
proof -
  have "collect (\<lambda>c. gt0 (col c)) cs = Inl TypeError"
    using assms
  proof (induction cs)
    case Nil
    then show ?case by simp
  next
    case (Cons c cs)
    show ?case
    proof (cases "col c")
      case (Text s)
      then show ?thesis by simp
    next
      case (Num x)
      with Cons show ?thesis by auto
    next
      case Null
      with Cons show ?thesis by auto
    qed
  qed
  then show ?thesis by (simp add: select_def)
qed


lemma company_agg_data_coerced:
  "company_agg_data A (coerce_scores parse t) =
     Inr (filter (\<lambda>c. \<exists>x. ingresos c = Num x \<and> 0 < x)
            (map (\<lambda>k. \<lparr> c_razon_social = k,
                    puntaje_total =
                      Num (asum A (nums (map (\<lambda>r. fillna0 (to_numeric parse
                                                     (valoracionPonderada r)))
                                           (group_rows razon_social k t)))),
                    ingresos =
                      fillna0 (to_numeric parse
                        (ingresos_operacionales (hd (group_rows razon_social k t)))),
                    c_macrosector =
                      agg_first_text (map macrosector (group_rows razon_social k t)) \<rparr>)
            (group_keys razon_social t)))"
proof -
  let ?mk = "\<lambda>k. \<lparr> c_razon_social = k,
                    puntaje_total =
                      Num (asum A (nums (map (\<lambda>r. fillna0 (to_numeric parse
                                                     (valoracionPonderada r)))
                                           (group_rows razon_social k t)))),
                    ingresos =
                      fillna0 (to_numeric parse
                        (ingresos_operacionales (hd (group_rows razon_social k t)))),
                    c_macrosector =
                      agg_first_text (map macrosector (group_rows razon_social k t)) \<rparr>"
  have "\<forall>c\<in>set (map ?mk (group_keys razon_social t)). \<not> is_text (ingresos c)"
  proof
    fix c assume "c \<in> set (map ?mk (group_keys razon_social t))"
    then obtain k where "ingresos c = fillna0 (to_numeric parse
                        (ingresos_operacionales (hd (group_rows razon_social k t))))"
      by auto
    with fillna0_to_numeric obtain x where "ingresos c = Num x" by metis
    then show "\<not> is_text (ingresos c)" by simp
  qed
  from select_gt0_Inr [OF this] show ?thesis
    by (simp only: company_agg_data_def company_agg_coerced sum.case)
qed


subsection \<open>Chart 5 of index.py\<close>

lemma generate_chart_05_heap:
  "generate_chart_05 parse chained A h df =
     (h @ [income_column parse chained (h ! df)],
      case company_performance A (income_column parse chained (h ! df)) of
        Inl e \<Rightarrow> Inl e
      | Inr cp \<Rightarrow> select (\<lambda>c. gt0 (income c)) cp)"
  by (simp add: generate_chart_05_def copy_frame_def income_column_def coerce_income_def
      comp_def)













subsection \<open>Chart 10\<close>

lemma length_nums:
  "\<forall>c\<in>set cs. \<exists>x. c = Num x \<Longrightarrow> length (nums cs) = length cs"
  by (induction cs rule: nums.induct) auto

lemma sector_avg_score_numeric:
  assumes num: "\<forall>c\<in>set cs. \<exists>x. puntaje_total c = Num x"
  shows "sector_avg_score A cs =
           Inr (map (\<lambda>s. (s, Num (amean A (nums (map puntaje_total
                                                (group_rows c_macrosector s cs))))))
                  (group_keys c_macrosector cs))"
  unfolding sector_avg_score_def
proof (rule groupby_agg_Inr)
  fix s assume s: "s \<in> set (group_keys c_macrosector cs)"
  let ?g = "group_rows c_macrosector s cs"
  let ?cells = "map puntaje_total ?g"
  have allnum: "\<forall>c\<in>set ?cells. \<exists>x. c = Num x" using num by (auto simp: group_rows_def)
  then have nt: "\<forall>c\<in>set ?cells. \<not> is_text c" by auto
  have len: "length (nums ?cells) = length ?g" using length_nums [OF allnum] by simp
  have "?g \<noteq> []" using s by (rule group_rows_nonempty)
  with len have "nums ?cells \<noteq> []" by auto
  with nt show "agg_mean_in A ?cells = Inr (Num (amean A (nums ?cells)))"
    by (cases "nums ?cells") (auto simp: agg_mean_in_def)
qed

lemma filter_key_distinct:
  "distinct ks \<Longrightarrow> s \<in> set ks \<Longrightarrow>
   filter (\<lambda>a. fst a = s) (map (\<lambda>k. (k, v k)) ks) = [(s, v s)]"
proof (induction ks)
  case Nil
  then show ?case by simp
next
  case (Cons k ks)
  show ?case
  proof (cases "k = s")
    case True
    with Cons.prems have "s \<notin> set ks" by simp
    then have "filter (\<lambda>a. fst a = s) (map (\<lambda>k. (k, v k)) ks) = []"
      by (auto simp: filter_empty_conv)
    with True show ?thesis by simp
  next
    case False
    with Cons show ?thesis by simp
  qed
qed

lemma merge_sector_keys:
  "merge_sector cs (map (\<lambda>s. (s, v s)) (group_keys c_macrosector cs)) =
     concat (map (\<lambda>c. case c_macrosector c of
                        None \<Rightarrow> []
                      | Some s \<Rightarrow> [(c, s, v s)]) cs)"
proof -
  have "(case c_macrosector c of
           None \<Rightarrow> []
         | Some s \<Rightarrow> map (\<lambda>a. (c, s, snd a))
                      (filter (\<lambda>a. fst a = s) (map (\<lambda>s. (s, v s)) (group_keys c_macrosector cs))))
        = (case c_macrosector c of None \<Rightarrow> [] | Some s \<Rightarrow> [(c, s, v s)])"
    if "c \<in> set cs" for c
  proof (cases "c_macrosector c")
    case None
    then show ?thesis by simp
  next
    case (Some s)
    with that have "s \<in> set (group_keys c_macrosector cs)"
      by (auto simp: set_group_keys)
    from filter_key_distinct [OF distinct_group_keys this, of v] Some show ?thesis by simp
  qed
  then show ?thesis
    unfolding merge_sector_def by (intro arg_cong [where f = concat] map_cong) auto
qed

lemma concat_option_filter:
  "concat (map (\<lambda>c. case key c of None \<Rightarrow> [] | Some s \<Rightarrow> [f c s]) cs)
     = map (\<lambda>c. f c (the (key c))) (filter (\<lambda>c. key c \<noteq> None) cs)"
  by (induction cs) (auto split: option.splits)

lemma sub_cell_Num: "sub_cell A (Num a) (Num b) = Inr (Some (asub A a b))"
  by (simp add: sub_cell_def)

lemma diverging_data_numeric:
  assumes num: "\<forall>c\<in>set cs. \<exists>x. puntaje_total c = Num x"
  shows "\<exists>ds. diverging_data A cs = Inr ds
           \<and> set (map d_company ds) = {c \<in> set cs. c_macrosector c \<noteq> None}
           \<and> length ds = length (filter (\<lambda>c. c_macrosector c \<noteq> None) cs)
           \<and> (\<forall>d\<in>set ds. \<exists>tot avg.
                  puntaje_total (d_company d) = Num tot
                  \<and> c_macrosector (d_company d) = Some (d_macrosector d)
                  \<and> avg = amean A (nums (map puntaje_total
                             (filter (\<lambda>c. c_macrosector c = Some (d_macrosector d)) cs)))
                  \<and> promedio_sector d = Num avg
                  \<and> diferencia_vs_promedio d = Some (asub A tot avg)
                  \<and> desempeno_relativo d =
                      (if 0 \<le> asub A tot avg then ''Superior al Promedio''
                       else ''Inferior al Promedio''))"
proof -
  define avg where "avg s = amean A (nums (map puntaje_total (group_rows c_macrosector s cs)))"
    for s
  define tot where "tot c = (case puntaje_total c of Num x \<Rightarrow> x | _ \<Rightarrow> 0)"
    for c :: company
  define mk where "mk c = \<lparr> d_company = c, d_macrosector = the (c_macrosector c),
                           promedio_sector = Num (avg (the (c_macrosector c))),
                           diferencia_vs_promedio = Some (asub A (tot c) (avg (the (c_macrosector c)))),
                           desempeno_relativo =
                             relative_label (Some (asub A (tot c) (avg (the (c_macrosector c))))) \<rparr>"
    for c :: company
  let ?with = "filter (\<lambda>c. c_macrosector c \<noteq> None) cs"
  let ?merged = "map (\<lambda>c. (c, the (c_macrosector c), Num (avg (the (c_macrosector c))))) ?with"
  let ?f = "\<lambda>(c, s, a). case sub_cell A (puntaje_total c) a of
                          Inl e \<Rightarrow> Inl e
                        | Inr d \<Rightarrow>
                            Inr \<lparr> d_company = c, d_macrosector = s,
                                  promedio_sector = a,
                                  diferencia_vs_promedio = d,
                                  desempeno_relativo = relative_label d \<rparr>"
  have avgs: "sector_avg_score A cs
                = Inr (map (\<lambda>s. (s, Num (avg s))) (group_keys c_macrosector cs))"
    using sector_avg_score_numeric [OF num, of A] by (simp add: avg_def)
  have merged: "merge_sector cs (map (\<lambda>s. (s, Num (avg s))) (group_keys c_macrosector cs))
                  = ?merged"
    by (simp only: merge_sector_keys concat_option_filter)
  have totc: "puntaje_total c = Num (tot c)" if "c \<in> set cs" for c
    using num that by (auto simp: tot_def)
  have "collect ?f ?merged = Inr (map (\<lambda>m. mk (fst m)) ?merged)"
  proof (rule collect_Inr)
    fix m assume "m \<in> set ?merged"
    then obtain c where c: "c \<in> set cs"
      and m: "m = (c, the (c_macrosector c), Num (avg (the (c_macrosector c))))"
      by auto
    show "?f m = Inr (mk (fst m))"
      by (simp add: m totc [OF c] sub_cell_Num mk_def)
  qed
  then have coll: "collect ?f ?merged = Inr (map mk ?with)"
    by (simp add: comp_def)
  have dd: "diverging_data A cs = Inr (sort_key diverging_key (map mk ?with))"
    by (simp only: diverging_data_def avgs merged coll sum.case)
  have comp: "map d_company (map mk ?with) = ?with"
    by (simp add: mk_def comp_def)
  have s1: "set (map d_company (sort_key diverging_key (map mk ?with)))
              = {c \<in> set cs. c_macrosector c \<noteq> None}"
  proof -
    have "set (map d_company (sort_key diverging_key (map mk ?with)))
            = d_company ` set (map mk ?with)"
      by simp
    also have "\<dots> = set (map d_company (map mk ?with))" by (simp only: set_map)
    also have "\<dots> = {c \<in> set cs. c_macrosector c \<noteq> None}" by (simp only: comp) auto
    finally show ?thesis .
  qed
  have each: "\<exists>tot avg.
                  puntaje_total (d_company d) = Num tot
                  \<and> c_macrosector (d_company d) = Some (d_macrosector d)
                  \<and> avg = amean A (nums (map puntaje_total
                             (filter (\<lambda>c. c_macrosector c = Some (d_macrosector d)) cs)))
                  \<and> promedio_sector d = Num avg
                  \<and> diferencia_vs_promedio d = Some (asub A tot avg)
                  \<and> desempeno_relativo d =
                      (if 0 \<le> asub A tot avg then ''Superior al Promedio''
                       else ''Inferior al Promedio'')"
    if "d \<in> set (sort_key diverging_key (map mk ?with))" for d
  proof -
    from that obtain c where c: "c \<in> set cs" "c_macrosector c \<noteq> None" and d: "d = mk c"
      by auto
    from c(2) obtain s where s: "c_macrosector c = Some s" by auto
    show ?thesis
      using totc [OF c(1)] s
      by (simp add: d mk_def avg_def group_rows_def relative_label_def)
  qed
  from dd s1 each show ?thesis by auto
qed

lemma company_agg_data_totals:
  assumes "company_agg_data A (coerce_scores parse t) = Inr cs"
  shows "(\<forall>c\<in>set cs. \<exists>x. puntaje_total c = Num x) \<and> distinct (map c_razon_social cs)"
proof -
  let ?mk = "\<lambda>k. \<lparr> c_razon_social = k,
                    puntaje_total =
                      Num (asum A (nums (map (\<lambda>r. fillna0 (to_numeric parse
                                                     (valoracionPonderada r)))
                                           (group_rows razon_social k t)))),
                    ingresos =
                      fillna0 (to_numeric parse
                        (ingresos_operacionales (hd (group_rows razon_social k t)))),
                    c_macrosector =
                      agg_first_text (map macrosector (group_rows razon_social k t)) \<rparr>"
  from assms have cs: "cs = filter (\<lambda>c. \<exists>x. ingresos c = Num x \<and> 0 < x)
                              (map ?mk (group_keys razon_social t))"
    by (simp only: company_agg_data_coerced sum.inject)
  have "map c_razon_social cs
          = filter (\<lambda>k. \<exists>x. ingresos (?mk k) = Num x \<and> 0 < x) (group_keys razon_social t)"
    unfolding cs by (simp add: filter_map comp_def)
  then have "distinct (map c_razon_social cs)"
    by (simp add: distinct_group_keys)
  moreover have "\<forall>c\<in>set cs. \<exists>x. puntaje_total c = Num x"
    unfolding cs by auto
  ultimately show ?thesis by simp
qed

text \<open>
  C9, as amended. The company table of chart 4 and, from it, the diverging-bar table of
  chart 10 are computed without error. The company table holds the companies whose
  first row carries an income that is, once coerced, a number greater than zero, each
  with the sum of the coerced, zero-filled scores of its rows as its total score; a
  company with an empty, non-numeric or non-positive income is not in it, so it has no
  bar and does not count in any mean. Every company of the company table that has a
  sector is in the diverging-bar table exactly once (a company without sector has no
  sector mean and is left out by the merge). For each of them the mean is the mean of
  the total scores of the companies of its sector in the company table, the derived
  column is the company's total score minus that mean, and the label is
  \<open>Superior al Promedio\<close> when the difference is at least zero and
  \<open>Inferior al Promedio\<close> when it is negative. Sum, mean and difference are the ones of
  the arithmetic of the column.
\<close>

theorem diverging_relative_to_sector:
  "\<exists>cs ds. company_agg_data A (raw_data_read parse 4 t) = Inr cs
         \<and> cs = filter (\<lambda>c. \<exists>x. ingresos c = Num x \<and> 0 < x)
                  (map (\<lambda>k. \<lparr> c_razon_social = k,
                        puntaje_total =
                          Num (asum A (nums (map (\<lambda>r. fillna0 (to_numeric parse
                                                         (valoracionPonderada r)))
                                               (group_rows razon_social k t)))),
                        ingresos =
                          fillna0 (to_numeric parse
                            (ingresos_operacionales (hd (group_rows razon_social k t)))),
                        c_macrosector =
                          agg_first_text (map macrosector (group_rows razon_social k t)) \<rparr>)
                (group_keys razon_social t))
         \<and> diverging_data A cs = Inr ds
         \<and> distinct (map c_razon_social cs)
         \<and> set (map d_company ds) = {c \<in> set cs. c_macrosector c \<noteq> None}
         \<and> distinct (map d_company ds)
         \<and> (\<forall>d\<in>set ds. \<exists>tot avg.
                puntaje_total (d_company d) = Num tot
                \<and> c_macrosector (d_company d) = Some (d_macrosector d)
                \<and> avg = amean A (nums (map puntaje_total
                           (filter (\<lambda>c. c_macrosector c = Some (d_macrosector d)) cs)))
                \<and> promedio_sector d = Num avg
                \<and> diferencia_vs_promedio d = Some (asub A tot avg)
                \<and> desempeno_relativo d =
                    (if 0 \<le> asub A tot avg then ''Superior al Promedio''
                     else ''Inferior al Promedio''))"
proof -
  obtain cs where cs: "company_agg_data A (coerce_scores parse t) = Inr cs"
    using company_agg_data_coerced [of A parse t] by blast
  then have expl: "cs = filter (\<lambda>c. \<exists>x. ingresos c = Num x \<and> 0 < x)
                  (map (\<lambda>k. \<lparr> c_razon_social = k,
                        puntaje_total =
                          Num (asum A (nums (map (\<lambda>r. fillna0 (to_numeric parse
                                                         (valoracionPonderada r)))
                                               (group_rows razon_social k t)))),
                        ingresos =
                          fillna0 (to_numeric parse
                            (ingresos_operacionales (hd (group_rows razon_social k t)))),
                        c_macrosector =
                          agg_first_text (map macrosector (group_rows razon_social k t)) \<rparr>)
                (group_keys razon_social t))"
    by (simp only: company_agg_data_coerced sum.inject)
  from company_agg_data_totals [OF cs]
  have num: "\<forall>c\<in>set cs. \<exists>x. puntaje_total c = Num x"
    and dist: "distinct (map c_razon_social cs)" by blast+
  from diverging_data_numeric [OF num, of A] obtain ds where
    dd: "diverging_data A cs = Inr ds"
    and st: "set (map d_company ds) = {c \<in> set cs. c_macrosector c \<noteq> None}"
    and len: "length ds = length (filter (\<lambda>c. c_macrosector c \<noteq> None) cs)"
    and each: "\<forall>d\<in>set ds. \<exists>tot avg.
                puntaje_total (d_company d) = Num tot
                \<and> c_macrosector (d_company d) = Some (d_macrosector d)
                \<and> avg = amean A (nums (map puntaje_total
                           (filter (\<lambda>c. c_macrosector c = Some (d_macrosector d)) cs)))
                \<and> promedio_sector d = Num avg
                \<and> diferencia_vs_promedio d = Some (asub A tot avg)
                \<and> desempeno_relativo d =
                    (if 0 \<le> asub A tot avg then ''Superior al Promedio''
                     else ''Inferior al Promedio'')"
    by blast
  have "distinct cs" using dist by (simp add: distinct_map)
  then have dw: "distinct (filter (\<lambda>c. c_macrosector c \<noteq> None) cs)" by simp
  have "card (set (map d_company ds)) = length (map d_company ds)"
  proof -
    have "set (map d_company ds) = set (filter (\<lambda>c. c_macrosector c \<noteq> None) cs)"
      using st by auto
    then have "card (set (map d_company ds))
                 = card (set (filter (\<lambda>c. c_macrosector c \<noteq> None) cs))"
      by simp
    also have "\<dots> = length (filter (\<lambda>c. c_macrosector c \<noteq> None) cs)"
      using dw by (rule distinct_card)
    finally show ?thesis using len by simp
  qed
  then have dd2: "distinct (map d_company ds)" by (rule card_distinct)
  from cs expl dd dist st dd2 each show ?thesis
    unfolding raw_data_read_4 by blast
qed

theorem diverging_relative_to_sector_witness:
  "company_agg_data exact (raw_data_read (map_of []) 4
     [\<lparr> razon_social = Some ''Alfa'', macrosector = Some ''Servicios'', bloque = Some ''B1'',
        nombre_pilar = Some ''P1'', variable = Some ''V1'', valoracionPonderada = Num 5,
        ingresos_operacionales = Num 100, ano_de_fundacion = Num 1990 \<rparr>,
      \<lparr> razon_social = Some ''Beta'', macrosector = Some ''Servicios'', bloque = Some ''B1'',
        nombre_pilar = Some ''P1'', variable = Some ''V1'', valoracionPonderada = Num 1,
        ingresos_operacionales = Num 50, ano_de_fundacion = Num 2001 \<rparr>,
      \<lparr> razon_social = Some ''Gama'', macrosector = Some ''Industria'', bloque = Some ''B1'',
        nombre_pilar = Some ''P1'', variable = Some ''V1'', valoracionPonderada = Num 4,
        ingresos_operacionales = Num 70, ano_de_fundacion = Num 2005 \<rparr>])
   = Inr [\<lparr> c_razon_social = ''Alfa'', puntaje_total = Num 5, ingresos = Num 100,
            c_macrosector = Some ''Servicios'' \<rparr>,
          \<lparr> c_razon_social = ''Beta'', puntaje_total = Num 1, ingresos = Num 50,
            c_macrosector = Some ''Servicios'' \<rparr>,
          \<lparr> c_razon_social = ''Gama'', puntaje_total = Num 4, ingresos = Num 70,
            c_macrosector = Some ''Industria'' \<rparr>]
   \<and> diverging_data exact
         [\<lparr> c_razon_social = ''Alfa'', puntaje_total = Num 5, ingresos = Num 100,
            c_macrosector = Some ''Servicios'' \<rparr>,
          \<lparr> c_razon_social = ''Beta'', puntaje_total = Num 1, ingresos = Num 50,
            c_macrosector = Some ''Servicios'' \<rparr>,
          \<lparr> c_razon_social = ''Gama'', puntaje_total = Num 4, ingresos = Num 70,
            c_macrosector = Some ''Industria'' \<rparr>]
     = Inr [\<lparr> d_company = \<lparr> c_razon_social = ''Gama'', puntaje_total = Num 4, ingresos = Num 70,
                          c_macrosector = Some ''Industria'' \<rparr>,
            d_macrosector = ''Industria'', promedio_sector = Num 4,
            diferencia_vs_promedio = Some 0,
            desempeno_relativo = ''Superior al Promedio'' \<rparr>,
          \<lparr> d_company = \<lparr> c_razon_social = ''Beta'', puntaje_total = Num 1, ingresos = Num 50,
                          c_macrosector = Some ''Servicios'' \<rparr>,
            d_macrosector = ''Servicios'', promedio_sector = Num 3,
            diferencia_vs_promedio = Some (- 2),
            desempeno_relativo = ''Inferior al Promedio'' \<rparr>,
          \<lparr> d_company = \<lparr> c_razon_social = ''Alfa'', puntaje_total = Num 5, ingresos = Num 100,
                          c_macrosector = Some ''Servicios'' \<rparr>,
            d_macrosector = ''Servicios'', promedio_sector = Num 3,
            diferencia_vs_promedio = Some 2,
            desempeno_relativo = ''Superior al Promedio'' \<rparr>]"
  using diverging_relative_to_sector [of exact "map_of []"
     "[\<lparr> razon_social = Some ''Alfa'', macrosector = Some ''Servicios'', bloque = Some ''B1'',
        nombre_pilar = Some ''P1'', variable = Some ''V1'', valoracionPonderada = Num 5,
        ingresos_operacionales = Num 100, ano_de_fundacion = Num 1990 \<rparr>,
      \<lparr> razon_social = Some ''Beta'', macrosector = Some ''Servicios'', bloque = Some ''B1'',
        nombre_pilar = Some ''P1'', variable = Some ''V1'', valoracionPonderada = Num 1,
        ingresos_operacionales = Num 50, ano_de_fundacion = Num 2001 \<rparr>,
      \<lparr> razon_social = Some ''Gama'', macrosector = Some ''Industria'', bloque = Some ''B1'',
        nombre_pilar = Some ''P1'', variable = Some ''V1'', valoracionPonderada = Num 4,
        ingresos_operacionales = Num 70, ano_de_fundacion = Num 2005 \<rparr>]"]
  by (simp add: raw_data_read_4 coerce_scores_def to_numeric_def fillna0_def
      company_agg_data_def company_agg_def group_keys_def group_rows_def agg_sum_in_def
      agg_first_def agg_first_text_def select_def diverging_data_def sector_avg_score_def
      groupby_agg_def agg_mean_in_def merge_sector_def sub_cell_def relative_label_def
      diverging_key_def exact_def)

theorem diverging_counterexample:
  "company_agg exact (raw_data_read (map_of []) 4
     [\<lparr> razon_social = Some ''Alfa'', macrosector = Some ''Servicios'', bloque = Some ''B1'',
        nombre_pilar = Some ''P1'', variable = Some ''V1'', valoracionPonderada = Num 5,
        ingresos_operacionales = Num 100, ano_de_fundacion = Num 1990 \<rparr>,
      \<lparr> razon_social = Some ''Beta'', macrosector = Some ''Servicios'', bloque = Some ''B1'',
        nombre_pilar = Some ''P1'', variable = Some ''V1'', valoracionPonderada = Num 1,
        ingresos_operacionales = Null, ano_de_fundacion = Num 2001 \<rparr>,
      \<lparr> razon_social = Some ''Gama'', macrosector = Some ''Industria'', bloque = Some ''B1'',
        nombre_pilar = Some ''P1'', variable = Some ''V1'', valoracionPonderada = Num 4,
        ingresos_operacionales = Num 70, ano_de_fundacion = Num 2005 \<rparr>])
   = Inr [\<lparr> c_razon_social = ''Alfa'', puntaje_total = Num 5, ingresos = Num 100,
          c_macrosector = Some ''Servicios'' \<rparr>,
        \<lparr> c_razon_social = ''Beta'', puntaje_total = Num 1, ingresos = Num 0,
          c_macrosector = Some ''Servicios'' \<rparr>,
        \<lparr> c_razon_social = ''Gama'', puntaje_total = Num 4, ingresos = Num 70,
          c_macrosector = Some ''Industria'' \<rparr>]
   \<and> company_agg_data exact (raw_data_read (map_of []) 4
     [\<lparr> razon_social = Some ''Alfa'', macrosector = Some ''Servicios'', bloque = Some ''B1'',
        nombre_pilar = Some ''P1'', variable = Some ''V1'', valoracionPonderada = Num 5,
        ingresos_operacionales = Num 100, ano_de_fundacion = Num 1990 \<rparr>,
      \<lparr> razon_social = Some ''Beta'', macrosector = Some ''Servicios'', bloque = Some ''B1'',
        nombre_pilar = Some ''P1'', variable = Some ''V1'', valoracionPonderada = Num 1,
        ingresos_operacionales = Null, ano_de_fundacion = Num 2001 \<rparr>,
      \<lparr> razon_social = Some ''Gama'', macrosector = Some ''Industria'', bloque = Some ''B1'',
        nombre_pilar = Some ''P1'', variable = Some ''V1'', valoracionPonderada = Num 4,
        ingresos_operacionales = Num 70, ano_de_fundacion = Num 2005 \<rparr>])
   = Inr [\<lparr> c_razon_social = ''Alfa'', puntaje_total = Num 5, ingresos = Num 100,
            c_macrosector = Some ''Servicios'' \<rparr>,
          \<lparr> c_razon_social = ''Gama'', puntaje_total = Num 4, ingresos = Num 70,
            c_macrosector = Some ''Industria'' \<rparr>]
   \<and> diverging_data exact
         [\<lparr> c_razon_social = ''Alfa'', puntaje_total = Num 5, ingresos = Num 100,
            c_macrosector = Some ''Servicios'' \<rparr>,
          \<lparr> c_razon_social = ''Gama'', puntaje_total = Num 4, ingresos = Num 70,
            c_macrosector = Some ''Industria'' \<rparr>]
     = Inr [\<lparr> d_company = \<lparr> c_razon_social = ''Gama'', puntaje_total = Num 4, ingresos = Num 70,
                          c_macrosector = Some ''Industria'' \<rparr>,
            d_macrosector = ''Industria'', promedio_sector = Num 4,
            diferencia_vs_promedio = Some 0,
            desempeno_relativo = ''Superior al Promedio'' \<rparr>,
          \<lparr> d_company = \<lparr> c_razon_social = ''Alfa'', puntaje_total = Num 5, ingresos = Num 100,
                          c_macrosector = Some ''Servicios'' \<rparr>,
            d_macrosector = ''Servicios'', promedio_sector = Num 5,
            diferencia_vs_promedio = Some 0,
            desempeno_relativo = ''Superior al Promedio'' \<rparr>]"
  by (simp add: raw_data_read_4 coerce_scores_def to_numeric_def fillna0_def
      company_agg_data_def company_agg_def group_keys_def group_rows_def agg_sum_in_def
      agg_first_def agg_first_text_def select_def diverging_data_def sector_avg_score_def
      groupby_agg_def agg_mean_in_def merge_sector_def sub_cell_def relative_label_def
      diverging_key_def exact_def)

subsection \<open>Bad values\<close>


text \<open>
  C2. A score column in which one cell holds a text that denotes no number is read as a
  column of texts. Chart 1 is the first block of either variant and takes the mean of
  the score column as it was loaded (GenerateCharts.py lines 113 to 115, index.py line
  93): the mean raises \<open>TypeError\<close>, which nothing catches, and the run ends there. The
  coercion of GenerateCharts.py stands at line 222, in the block of chart 4, which is
  not reached; index.py has none for the score column. On the table as lines 222 and 223
  would leave it the same aggregation returns and the row with the bad score counts as
  zero, which is the behaviour the specification describes.
\<close>

theorem bad_score_raises:
  "radar_final_df
     [\<lparr> razon_social = Some ''Alfa'', macrosector = Some ''Servicios'', bloque = Some ''B1'',
        nombre_pilar = Some ''P1'', variable = Some ''V1'', valoracionPonderada = Text ''7'',
        ingresos_operacionales = Num 100, ano_de_fundacion = Num 1990 \<rparr>,
      \<lparr> razon_social = Some ''Alfa'', macrosector = Some ''Servicios'', bloque = Some ''B1'',
        nombre_pilar = Some ''P2'', variable = Some ''V2'', valoracionPonderada = Text ''sin dato'',
        ingresos_operacionales = Num 100, ano_de_fundacion = Num 1990 \<rparr>]
   = Inl TypeError
   \<and> radar_data
     [\<lparr> razon_social = Some ''Alfa'', macrosector = Some ''Servicios'', bloque = Some ''B1'',
        nombre_pilar = Some ''P1'', variable = Some ''V1'', valoracionPonderada = Text ''7'',
        ingresos_operacionales = Num 100, ano_de_fundacion = Num 1990 \<rparr>,
      \<lparr> razon_social = Some ''Alfa'', macrosector = Some ''Servicios'', bloque = Some ''B1'',
        nombre_pilar = Some ''P2'', variable = Some ''V2'', valoracionPonderada = Text ''sin dato'',
        ingresos_operacionales = Num 100, ano_de_fundacion = Num 1990 \<rparr>]
   = Inl TypeError
   \<and> radar_final_df (raw_data_read (map_of [(''7'', 7)]) 4
     [\<lparr> razon_social = Some ''Alfa'', macrosector = Some ''Servicios'', bloque = Some ''B1'',
        nombre_pilar = Some ''P1'', variable = Some ''V1'', valoracionPonderada = Text ''7'',
        ingresos_operacionales = Num 100, ano_de_fundacion = Num 1990 \<rparr>,
      \<lparr> razon_social = Some ''Alfa'', macrosector = Some ''Servicios'', bloque = Some ''B1'',
        nombre_pilar = Some ''P2'', variable = Some ''V2'', valoracionPonderada = Text ''sin dato'',
        ingresos_operacionales = Num 100, ano_de_fundacion = Num 1990 \<rparr>])
   = Inr \<lparr> m_index = [''P1'', ''P2''], m_columns = [''Servicios''],
           m_values = [[Num 7], [Num 0]] \<rparr>"
  by (simp add: radar_final_df_def radar_data_def groupby_agg_def group_keys_def
      group_rows_def key2_def agg_mean_def raw_data_read_4 coerce_scores_def
      to_numeric_def fillna0_def pivot_table_def unstack_def entry_def
      drop_empty_columns_def fillna0_matrix_def upt_rec)

subsection \<open>The shared table\<close>

lemma generate_chart_11_heap:
  "fst (generate_chart_11 parse h df) =
     h @ [filter (\<lambda>r. ano_de_fundacion r \<noteq> Null) (coerce_year parse (h ! df))]"
  by (simp add: generate_chart_11_def copy_frame_def)

lemma generate_chart_13_heap:
  "generate_chart_13 parse astype_str h df =
     h @ [map (\<lambda>r. r \<lparr> ponderacion_materialidad :=
                     fillna0 (to_numeric parse
                       (str_replace_percent (astype_str (ponderacion_materialidad r)))),
                   valoracion := fillna0 (to_numeric parse (valoracion r)) \<rparr>)
         (h ! df)]"
  by (simp add: generate_chart_13_def copy_frame_def comp_def)

lemma chart_heap_append:
  "\<exists>new. chart_heap parse astype_str chained A k h df = h @ new
         \<and> length new = (if k = 5 \<or> k = 11 \<or> k = 13 then 1 else 0)"
  by (simp add: chart_heap_def generate_chart_05_heap generate_chart_11_heap
      generate_chart_13_heap)

lemma heap_after_Suc:
  "heap_after parse astype_str chained A (Suc k) h df
     = chart_heap parse astype_str chained A (Suc k) (heap_after parse astype_str chained A k h df) df"
  by (simp add: heap_after_def)

lemma heap_after_append:
  "\<exists>new. heap_after parse astype_str chained A k h df = h @ new
         \<and> length new = (if k < 5 then 0 else if k < 11 then 1 else if k < 13 then 2 else 3)"
proof (induction k)
  case 0
  then show ?case by (simp add: heap_after_def)
next
  case (Suc k)
  then obtain new where new: "heap_after parse astype_str chained A k h df = h @ new"
    and len: "length new = (if k < 5 then 0 else if k < 11 then 1 else if k < 13 then 2 else 3)"
    by blast
  from chart_heap_append [of parse astype_str chained A "Suc k" "h @ new" df]
  obtain new' where new': "chart_heap parse astype_str chained A (Suc k) (h @ new) df
                             = (h @ new) @ new'"
    and len': "length new' = (if Suc k = 5 \<or> Suc k = 11 \<or> Suc k = 13 then 1 else 0)"
    by blast
  have "heap_after parse astype_str chained A (Suc k) h df = h @ (new @ new')"
    by (simp only: heap_after_Suc new new' append_assoc)
  moreover have "length (new @ new')
      = (if Suc k < 5 then 0 else if Suc k < 11 then 1 else if Suc k < 13 then 2 else 3)"
    using len len' by (auto split: if_splits)
  ultimately show ?case by blast
qed

lemma heap_after_all:
  assumes "df < length h"
  shows "heap_after parse astype_str chained A 15 h df =
           h @ [income_column parse chained (h ! df),
                filter (\<lambda>r. ano_de_fundacion r \<noteq> Null) (coerce_year parse (h ! df)),
                map (\<lambda>r. r \<lparr> ponderacion_materialidad :=
                     fillna0 (to_numeric parse
                       (str_replace_percent (astype_str (ponderacion_materialidad r)))),
                   valoracion := fillna0 (to_numeric parse (valoracion r)) \<rparr>)
         (h ! df)]"
proof -
  have e: "[1..<Suc 15] = [1, 2, 3, 4, 5, 6, 7, 8, 9, 10, 11, 12, 13, 14, 15]"
    by (simp add: upt_rec)
  show ?thesis
    unfolding heap_after_def e
    using assms
    by (simp add: chart_heap_def generate_chart_05_heap generate_chart_11_heap
        generate_chart_13_heap nth_append)
qed

lemma raw_data_read_cases:
  "raw_data_read parse k t =
     (if k < 4 then t
      else if k = 4 then coerce_scores parse t
      else coerce_year parse (coerce_scores parse t))"
  by (simp add: raw_data_read_early raw_data_read_4 raw_data_read_late)

lemma coerced_columns:
  "map razon_social (coerce_scores parse t) = map razon_social t"
  "map macrosector (coerce_scores parse t) = map macrosector t"
  "map bloque (coerce_scores parse t) = map bloque t"
  "map nombre_pilar (coerce_scores parse t) = map nombre_pilar t"
  "map variable (coerce_scores parse t) = map variable t"
  "map razon_social (coerce_year parse t) = map razon_social t"
  "map macrosector (coerce_year parse t) = map macrosector t"
  "map bloque (coerce_year parse t) = map bloque t"
  "map nombre_pilar (coerce_year parse t) = map nombre_pilar t"
  "map variable (coerce_year parse t) = map variable t"
  by (simp_all add: coerce_scores_def coerce_year_def)

lemma to_numeric_id: "\<not> is_text c \<Longrightarrow> to_numeric parse c = c"
  by (cases c) (simp_all add: to_numeric_def)

lemma coerce_numeric_id:
  assumes "\<forall>r\<in>set t. (\<exists>x. valoracionPonderada r = Num x)
                      \<and> (\<exists>x. ingresos_operacionales r = Num x)
                      \<and> \<not> is_text (ano_de_fundacion r)"
  shows "coerce_scores parse t = t" and "coerce_year parse t = t"
proof -
  have "r \<lparr> valoracionPonderada := fillna0 (to_numeric parse (valoracionPonderada r)),
            ingresos_operacionales := fillna0 (to_numeric parse (ingresos_operacionales r)) \<rparr>
          = r" if "r \<in> set t" for r
  proof -
    from that assms obtain x y where "valoracionPonderada r = Num x"
      "ingresos_operacionales r = Num y" by blast
    then show ?thesis by (simp add: to_numeric_def fillna0_def)
  qed
  then show "coerce_scores parse t = t"
    unfolding coerce_scores_def by (simp add: map_idI)
  have "r \<lparr> ano_de_fundacion := to_numeric parse (ano_de_fundacion r) \<rparr> = r"
    if "r \<in> set t" for r
    using that assms by (simp add: to_numeric_id)
  then show "coerce_year parse t = t"
    unfolding coerce_year_def by (simp add: map_idI)
qed

text \<open>
  C1, as amended. In index.py the loaded table is never written to: whichever of its
  fifteen chart procedures have run, the heap holds the objects it held before,
  unchanged, followed by the copies that procedures 5, 11 and 13 made and wrote to, so
  every procedure reads the table as it was loaded. In GenerateCharts.py the shared
  table is assigned to in place: charts 1 to 3 read the table as loaded, chart 4 reads
  it with the score and income columns coerced and zero-filled, charts 5 to 17 read it
  with the founding year coerced as well. The rows, their order and the categorical
  columns are the same throughout; two charts that are both before chart 4 or both
  after chart 4 read the same table; and when the score and the income column hold
  numbers only and the founding year no text, every chart reads the table as loaded.
\<close>

theorem shared_table_effects:
  "take (length h) (heap_after parse astype_str chained A k h df) = h
   \<and> length (heap_after parse astype_str chained A k h df)
       = length h + (if k < 5 then 0 else if k < 11 then 1 else if k < 13 then 2 else 3)
   \<and> (df < length h \<longrightarrow>
         heap_after parse astype_str chained A k h df ! df = h ! df
         \<and> heap_after parse astype_str chained A 15 h df =
             h @ [income_column parse chained (h ! df),
                  filter (\<lambda>r. ano_de_fundacion r \<noteq> Null) (coerce_year parse (h ! df)),
                  map (\<lambda>r. r \<lparr> ponderacion_materialidad :=
                     fillna0 (to_numeric parse
                       (str_replace_percent (astype_str (ponderacion_materialidad r)))),
                   valoracion := fillna0 (to_numeric parse (valoracion r)) \<rparr>)
         (h ! df)])
   \<and> raw_data_read parse k t =
       (if k < 4 then t
        else if k = 4 then coerce_scores parse t
        else coerce_year parse (coerce_scores parse t))
   \<and> length (raw_data_read parse k t) = length t
   \<and> map razon_social (raw_data_read parse k t) = map razon_social t
   \<and> map macrosector (raw_data_read parse k t) = map macrosector t
   \<and> map bloque (raw_data_read parse k t) = map bloque t
   \<and> map nombre_pilar (raw_data_read parse k t) = map nombre_pilar t
   \<and> map variable (raw_data_read parse k t) = map variable t
   \<and> ((j < 4 \<and> k < 4) \<or> (4 < j \<and> 4 < k)
        \<longrightarrow> raw_data_read parse j t = raw_data_read parse k t)
   \<and> ((\<forall>r\<in>set t. (\<exists>x. valoracionPonderada r = Num x)
                  \<and> (\<exists>x. ingresos_operacionales r = Num x)
                  \<and> \<not> is_text (ano_de_fundacion r))
        \<longrightarrow> raw_data_read parse k t = t)"
proof -
  from heap_after_append [of parse astype_str chained A k h df]
  obtain new where new: "heap_after parse astype_str chained A k h df = h @ new"
    and len: "length new = (if k < 5 then 0 else if k < 11 then 1 else if k < 13 then 2 else 3)"
    by blast
  have h1: "take (length h) (heap_after parse astype_str chained A k h df) = h"
    by (simp add: new)
  have h2: "length (heap_after parse astype_str chained A k h df)
       = length h + (if k < 5 then 0 else if k < 11 then 1 else if k < 13 then 2 else 3)"
    by (simp only: new length_append len)
  have h3: "df < length h \<longrightarrow>
         heap_after parse astype_str chained A k h df ! df = h ! df
         \<and> heap_after parse astype_str chained A 15 h df =
             h @ [income_column parse chained (h ! df),
                  filter (\<lambda>r. ano_de_fundacion r \<noteq> Null) (coerce_year parse (h ! df)),
                  map (\<lambda>r. r \<lparr> ponderacion_materialidad :=
                     fillna0 (to_numeric parse
                       (str_replace_percent (astype_str (ponderacion_materialidad r)))),
                   valoracion := fillna0 (to_numeric parse (valoracion r)) \<rparr>)
         (h ! df)]"
    using heap_after_all [of df h parse astype_str chained A] by (simp add: new nth_append)
  have len: "length (raw_data_read parse k t) = length t"
    by (simp add: raw_data_read_cases coerce_scores_def coerce_year_def)
  have same: "(j < 4 \<and> k < 4) \<or> (4 < j \<and> 4 < k)
        \<longrightarrow> raw_data_read parse j t = raw_data_read parse k t"
    by (auto simp: raw_data_read_cases)
  have num: "(\<forall>r\<in>set t. (\<exists>x. valoracionPonderada r = Num x)
                  \<and> (\<exists>x. ingresos_operacionales r = Num x)
                  \<and> \<not> is_text (ano_de_fundacion r))
        \<longrightarrow> raw_data_read parse k t = t"
    using coerce_numeric_id [of t parse] by (simp add: raw_data_read_cases)
  have cols: "map razon_social (raw_data_read parse k t) = map razon_social t
   \<and> map macrosector (raw_data_read parse k t) = map macrosector t
   \<and> map bloque (raw_data_read parse k t) = map bloque t
   \<and> map nombre_pilar (raw_data_read parse k t) = map nombre_pilar t
   \<and> map variable (raw_data_read parse k t) = map variable t"
    by (simp add: raw_data_read_cases coerced_columns)
  from h1 h2 h3 len same num cols raw_data_read_cases [of parse k t]
  show ?thesis by blast
qed

theorem shared_table_effects_witness:
  "heap_after (map_of [(''15'', 15), (''80'', 80)]) (\<lambda>c. c) True exact 15
     [[\<lparr> razon_social = Some ''Alfa'', macrosector = Some ''Servicios'', bloque = Some ''B1'',
         nombre_pilar = Some ''P1'', variable = Some ''V1'', valoracionPonderada = Num 2,
         ingresos_operacionales = Text ''sin dato'', ano_de_fundacion = Num 1990,
         ponderacion_materialidad = Text ''15%'', valoracion = Text ''80'' \<rparr>]] 0
   = [[\<lparr> razon_social = Some ''Alfa'', macrosector = Some ''Servicios'', bloque = Some ''B1'',
         nombre_pilar = Some ''P1'', variable = Some ''V1'', valoracionPonderada = Num 2,
         ingresos_operacionales = Text ''sin dato'', ano_de_fundacion = Num 1990,
         ponderacion_materialidad = Text ''15%'', valoracion = Text ''80'' \<rparr>],
      [\<lparr> razon_social = Some ''Alfa'', macrosector = Some ''Servicios'', bloque = Some ''B1'',
         nombre_pilar = Some ''P1'', variable = Some ''V1'', valoracionPonderada = Num 2,
         ingresos_operacionales = Num 0, ano_de_fundacion = Num 1990,
         ponderacion_materialidad = Text ''15%'', valoracion = Text ''80'' \<rparr>],
      [\<lparr> razon_social = Some ''Alfa'', macrosector = Some ''Servicios'', bloque = Some ''B1'',
         nombre_pilar = Some ''P1'', variable = Some ''V1'', valoracionPonderada = Num 2,
         ingresos_operacionales = Text ''sin dato'', ano_de_fundacion = Num 1990,
         ponderacion_materialidad = Text ''15%'', valoracion = Text ''80'' \<rparr>],
      [\<lparr> razon_social = Some ''Alfa'', macrosector = Some ''Servicios'', bloque = Some ''B1'',
         nombre_pilar = Some ''P1'', variable = Some ''V1'', valoracionPonderada = Num 2,
         ingresos_operacionales = Text ''sin dato'', ano_de_fundacion = Num 1990,
         ponderacion_materialidad = Num 15, valoracion = Num 80 \<rparr>]]
   \<and> raw_data_read (map_of [(''15'', 15), (''80'', 80)]) 2
       [\<lparr> razon_social = Some ''Alfa'', macrosector = Some ''Servicios'', bloque = Some ''B1'',
          nombre_pilar = Some ''P1'', variable = Some ''V1'', valoracionPonderada = Num 2,
          ingresos_operacionales = Num 100, ano_de_fundacion = Num 1990 \<rparr>]
     = raw_data_read (map_of [(''15'', 15), (''80'', 80)]) 3
       [\<lparr> razon_social = Some ''Alfa'', macrosector = Some ''Servicios'', bloque = Some ''B1'',
          nombre_pilar = Some ''P1'', variable = Some ''V1'', valoracionPonderada = Num 2,
          ingresos_operacionales = Num 100, ano_de_fundacion = Num 1990 \<rparr>]
   \<and> raw_data_read (map_of [(''15'', 15), (''80'', 80)]) 6
       [\<lparr> razon_social = Some ''Alfa'', macrosector = Some ''Servicios'', bloque = Some ''B1'',
          nombre_pilar = Some ''P1'', variable = Some ''V1'', valoracionPonderada = Num 2,
          ingresos_operacionales = Num 100, ano_de_fundacion = Num 1990 \<rparr>]
     = [\<lparr> razon_social = Some ''Alfa'', macrosector = Some ''Servicios'', bloque = Some ''B1'',
          nombre_pilar = Some ''P1'', variable = Some ''V1'', valoracionPonderada = Num 2,
          ingresos_operacionales = Num 100, ano_de_fundacion = Num 1990 \<rparr>]"
  using shared_table_effects [of
     "[[\<lparr> razon_social = Some ''Alfa'', macrosector = Some ''Servicios'', bloque = Some ''B1'',
         nombre_pilar = Some ''P1'', variable = Some ''V1'', valoracionPonderada = Num 2,
         ingresos_operacionales = Text ''sin dato'', ano_de_fundacion = Num 1990,
         ponderacion_materialidad = Text ''15%'', valoracion = Text ''80'' \<rparr>]]"
     "map_of [(''15'', 15), (''80'', 80)]" "\<lambda>c. c" True exact 3 0
     "[\<lparr> razon_social = Some ''Alfa'', macrosector = Some ''Servicios'', bloque = Some ''B1'',
          nombre_pilar = Some ''P1'', variable = Some ''V1'', valoracionPonderada = Num 2,
          ingresos_operacionales = Num 100, ano_de_fundacion = Num 1990 \<rparr>]" 2]
    shared_table_effects [of
     "[[\<lparr> razon_social = Some ''Alfa'', macrosector = Some ''Servicios'', bloque = Some ''B1'',
         nombre_pilar = Some ''P1'', variable = Some ''V1'', valoracionPonderada = Num 2,
         ingresos_operacionales = Text ''sin dato'', ano_de_fundacion = Num 1990,
         ponderacion_materialidad = Text ''15%'', valoracion = Text ''80'' \<rparr>]]"
     "map_of [(''15'', 15), (''80'', 80)]" "\<lambda>c. c" True exact 6 0
     "[\<lparr> razon_social = Some ''Alfa'', macrosector = Some ''Servicios'', bloque = Some ''B1'',
          nombre_pilar = Some ''P1'', variable = Some ''V1'', valoracionPonderada = Num 2,
          ingresos_operacionales = Num 100, ano_de_fundacion = Num 1990 \<rparr>]" 2]
  by (simp add: income_column_def coerce_income_def coerce_scores_def coerce_year_def
      to_numeric_def fillna0_def str_replace_percent_def remove_percent_def)

theorem shared_table_counterexample:
  "radar_final_df
     [\<lparr> razon_social = Some ''Alfa'', macrosector = Some ''Servicios'', bloque = Some ''B1'',
        nombre_pilar = Some ''P1'', variable = Some ''V1'', valoracionPonderada = Num 5,
        ingresos_operacionales = Num 100, ano_de_fundacion = Num 1990 \<rparr>,
      \<lparr> razon_social = Some ''Alfa'', macrosector = Some ''Servicios'', bloque = Some ''B1'',
        nombre_pilar = Some ''P2'', variable = Some ''V2'', valoracionPonderada = Null,
        ingresos_operacionales = Num 100, ano_de_fundacion = Num 1990 \<rparr>,
      \<lparr> razon_social = Some ''Beta'', macrosector = Some ''Industria'', bloque = Some ''B1'',
        nombre_pilar = Some ''P1'', variable = Some ''V1'', valoracionPonderada = Num 3,
        ingresos_operacionales = Num 50, ano_de_fundacion = Num 2001 \<rparr>,
      \<lparr> razon_social = Some ''Beta'', macrosector = Some ''Industria'', bloque = Some ''B1'',
        nombre_pilar = Some ''P2'', variable = Some ''V2'', valoracionPonderada = Num 4,
        ingresos_operacionales = Num 50, ano_de_fundacion = Num 2001 \<rparr>]
   = Inr \<lparr> m_index = [''P1'', ''P2''], m_columns = [''Industria'', ''Servicios''],
           m_values = [[Num 3, Num 5], [Num 4, Num 0]] \<rparr>
   \<and> raw_data_read (map_of []) 3
     [\<lparr> razon_social = Some ''Alfa'', macrosector = Some ''Servicios'', bloque = Some ''B1'',
        nombre_pilar = Some ''P1'', variable = Some ''V1'', valoracionPonderada = Num 5,
        ingresos_operacionales = Num 100, ano_de_fundacion = Num 1990 \<rparr>,
      \<lparr> razon_social = Some ''Alfa'', macrosector = Some ''Servicios'', bloque = Some ''B1'',
        nombre_pilar = Some ''P2'', variable = Some ''V2'', valoracionPonderada = Null,
        ingresos_operacionales = Num 100, ano_de_fundacion = Num 1990 \<rparr>,
      \<lparr> razon_social = Some ''Beta'', macrosector = Some ''Industria'', bloque = Some ''B1'',
        nombre_pilar = Some ''P1'', variable = Some ''V1'', valoracionPonderada = Num 3,
        ingresos_operacionales = Num 50, ano_de_fundacion = Num 2001 \<rparr>,
      \<lparr> razon_social = Some ''Beta'', macrosector = Some ''Industria'', bloque = Some ''B1'',
        nombre_pilar = Some ''P2'', variable = Some ''V2'', valoracionPonderada = Num 4,
        ingresos_operacionales = Num 50, ano_de_fundacion = Num 2001 \<rparr>]
   = [\<lparr> razon_social = Some ''Alfa'', macrosector = Some ''Servicios'', bloque = Some ''B1'',
        nombre_pilar = Some ''P1'', variable = Some ''V1'', valoracionPonderada = Num 5,
        ingresos_operacionales = Num 100, ano_de_fundacion = Num 1990 \<rparr>,
      \<lparr> razon_social = Some ''Alfa'', macrosector = Some ''Servicios'', bloque = Some ''B1'',
        nombre_pilar = Some ''P2'', variable = Some ''V2'', valoracionPonderada = Null,
        ingresos_operacionales = Num 100, ano_de_fundacion = Num 1990 \<rparr>,
      \<lparr> razon_social = Some ''Beta'', macrosector = Some ''Industria'', bloque = Some ''B1'',
        nombre_pilar = Some ''P1'', variable = Some ''V1'', valoracionPonderada = Num 3,
        ingresos_operacionales = Num 50, ano_de_fundacion = Num 2001 \<rparr>,
      \<lparr> razon_social = Some ''Beta'', macrosector = Some ''Industria'', bloque = Some ''B1'',
        nombre_pilar = Some ''P2'', variable = Some ''V2'', valoracionPonderada = Num 4,
        ingresos_operacionales = Num 50, ano_de_fundacion = Num 2001 \<rparr>]
   \<and> raw_data_read (map_of []) 6
     [\<lparr> razon_social = Some ''Alfa'', macrosector = Some ''Servicios'', bloque = Some ''B1'',
        nombre_pilar = Some ''P1'', variable = Some ''V1'', valoracionPonderada = Num 5,
        ingresos_operacionales = Num 100, ano_de_fundacion = Num 1990 \<rparr>,
      \<lparr> razon_social = Some ''Alfa'', macrosector = Some ''Servicios'', bloque = Some ''B1'',
        nombre_pilar = Some ''P2'', variable = Some ''V2'', valoracionPonderada = Null,
        ingresos_operacionales = Num 100, ano_de_fundacion = Num 1990 \<rparr>,
      \<lparr> razon_social = Some ''Beta'', macrosector = Some ''Industria'', bloque = Some ''B1'',
        nombre_pilar = Some ''P1'', variable = Some ''V1'', valoracionPonderada = Num 3,
        ingresos_operacionales = Num 50, ano_de_fundacion = Num 2001 \<rparr>,
      \<lparr> razon_social = Some ''Beta'', macrosector = Some ''Industria'', bloque = Some ''B1'',
        nombre_pilar = Some ''P2'', variable = Some ''V2'', valoracionPonderada = Num 4,
        ingresos_operacionales = Num 50, ano_de_fundacion = Num 2001 \<rparr>]
   = [\<lparr> razon_social = Some ''Alfa'', macrosector = Some ''Servicios'', bloque = Some ''B1'',
      nombre_pilar = Some ''P1'', variable = Some ''V1'', valoracionPonderada = Num 5,
      ingresos_operacionales = Num 100, ano_de_fundacion = Num 1990 \<rparr>,
    \<lparr> razon_social = Some ''Alfa'', macrosector = Some ''Servicios'', bloque = Some ''B1'',
      nombre_pilar = Some ''P2'', variable = Some ''V2'', valoracionPonderada = Num 0,
      ingresos_operacionales = Num 100, ano_de_fundacion = Num 1990 \<rparr>,
    \<lparr> razon_social = Some ''Beta'', macrosector = Some ''Industria'', bloque = Some ''B1'',
      nombre_pilar = Some ''P1'', variable = Some ''V1'', valoracionPonderada = Num 3,
      ingresos_operacionales = Num 50, ano_de_fundacion = Num 2001 \<rparr>,
    \<lparr> razon_social = Some ''Beta'', macrosector = Some ''Industria'', bloque = Some ''B1'',
      nombre_pilar = Some ''P2'', variable = Some ''V2'', valoracionPonderada = Num 4,
      ingresos_operacionales = Num 50, ano_de_fundacion = Num 2001 \<rparr>]
   \<and> map valoracionPonderada (raw_data_read (map_of []) 3
     [\<lparr> razon_social = Some ''Alfa'', macrosector = Some ''Servicios'', bloque = Some ''B1'',
        nombre_pilar = Some ''P1'', variable = Some ''V1'', valoracionPonderada = Num 5,
        ingresos_operacionales = Num 100, ano_de_fundacion = Num 1990 \<rparr>,
      \<lparr> razon_social = Some ''Alfa'', macrosector = Some ''Servicios'', bloque = Some ''B1'',
        nombre_pilar = Some ''P2'', variable = Some ''V2'', valoracionPonderada = Null,
        ingresos_operacionales = Num 100, ano_de_fundacion = Num 1990 \<rparr>,
      \<lparr> razon_social = Some ''Beta'', macrosector = Some ''Industria'', bloque = Some ''B1'',
        nombre_pilar = Some ''P1'', variable = Some ''V1'', valoracionPonderada = Num 3,
        ingresos_operacionales = Num 50, ano_de_fundacion = Num 2001 \<rparr>,
      \<lparr> razon_social = Some ''Beta'', macrosector = Some ''Industria'', bloque = Some ''B1'',
        nombre_pilar = Some ''P2'', variable = Some ''V2'', valoracionPonderada = Num 4,
        ingresos_operacionales = Num 50, ano_de_fundacion = Num 2001 \<rparr>])
   = [Num 5, Null, Num 3, Num 4]
   \<and> map valoracionPonderada (raw_data_read (map_of []) 6
     [\<lparr> razon_social = Some ''Alfa'', macrosector = Some ''Servicios'', bloque = Some ''B1'',
        nombre_pilar = Some ''P1'', variable = Some ''V1'', valoracionPonderada = Num 5,
        ingresos_operacionales = Num 100, ano_de_fundacion = Num 1990 \<rparr>,
      \<lparr> razon_social = Some ''Alfa'', macrosector = Some ''Servicios'', bloque = Some ''B1'',
        nombre_pilar = Some ''P2'', variable = Some ''V2'', valoracionPonderada = Null,
        ingresos_operacionales = Num 100, ano_de_fundacion = Num 1990 \<rparr>,
      \<lparr> razon_social = Some ''Beta'', macrosector = Some ''Industria'', bloque = Some ''B1'',
        nombre_pilar = Some ''P1'', variable = Some ''V1'', valoracionPonderada = Num 3,
        ingresos_operacionales = Num 50, ano_de_fundacion = Num 2001 \<rparr>,
      \<lparr> razon_social = Some ''Beta'', macrosector = Some ''Industria'', bloque = Some ''B1'',
        nombre_pilar = Some ''P2'', variable = Some ''V2'', valoracionPonderada = Num 4,
        ingresos_operacionales = Num 50, ano_de_fundacion = Num 2001 \<rparr>])
   = [Num 5, Num 0, Num 3, Num 4]"
  by (simp add: raw_data_read_cases coerce_scores_def coerce_year_def to_numeric_def
      fillna0_def radar_final_df_def groupby_agg_def group_keys_def group_rows_def
      key2_def agg_mean_def pivot_table_def unstack_def entry_def drop_empty_columns_def
      fillna0_matrix_def upt_rec)

subsection \<open>Unstacking\<close>









subsection \<open>Group means\<close>























end
